theory Spec2Isabelle
  imports Complex_Main "HOL-Library.Sublist"
begin

section \<open>Exceptions\<close>

text \<open>
  Functions that may raise return \<open>exn + 'a\<close>, with \<open>Inl\<close> the raised exception.
  \<open>ValueError\<close> carries its message, \<open>ValidationError\<close> (pydantic) the names of the
  fields that failed, \<open>JSONDecodeError\<close> comes from \<^verbatim>\<open>json.loads\<close>, \<open>AttributeError\<close> names
  the attribute read on \<^verbatim>\<open>None\<close>, and \<open>RuntimeFailure\<close> stands for any other exception of
  a collaborator (provider call, database driver) that derives from \<^verbatim>\<open>Exception\<close>.
  \<open>CancelledError\<close> (the cancellation of the task at an \<^verbatim>\<open>await\<close>), \<open>KeyboardInterrupt\<close>
  and \<open>SystemExit\<close> derive from \<^verbatim>\<open>BaseException\<close> only.
\<close>

datatype exn =
    ValueError string
  | ValidationError "string list"
  | JSONDecodeError string
  | AttributeError string
  | RuntimeFailure string
  | CancelledError
  | KeyboardInterrupt
  | SystemExit

text \<open>\<^verbatim>\<open>isinstance(e, Exception)\<close>: what a handler \<^verbatim>\<open>except Exception\<close> catches.\<close>

fun is_Exception :: "exn \<Rightarrow> bool" where
  "is_Exception CancelledError = False"
| "is_Exception KeyboardInterrupt = False"
| "is_Exception SystemExit = False"
| "is_Exception (ValueError m) = True"
| "is_Exception (ValidationError fs) = True"
| "is_Exception (JSONDecodeError m) = True"
| "is_Exception (AttributeError m) = True"
| "is_Exception (RuntimeFailure m) = True"

section \<open>schemas.py\<close>

subsection \<open>ExpenseCategory\<close>

datatype ExpenseCategory =
    HOUSING | TRANSPORTATION | FOOD | UTILITIES | INSURANCE | MEDICAL_HEALTHCARE
  | SAVINGS | DEBT | EDUCATION | ENTERTAINMENT | OTHER

fun category_value :: "ExpenseCategory \<Rightarrow> string" where
  "category_value HOUSING = ''Housing''"
| "category_value TRANSPORTATION = ''Transportation''"
| "category_value FOOD = ''Food''"
| "category_value UTILITIES = ''Utilities''"
| "category_value INSURANCE = ''Insurance''"
| "category_value MEDICAL_HEALTHCARE = ''Medical/Healthcare''"
| "category_value SAVINGS = ''Savings''"
| "category_value DEBT = ''Debt''"
| "category_value EDUCATION = ''Education''"
| "category_value ENTERTAINMENT = ''Entertainment''"
| "category_value OTHER = ''Other''"

definition all_categories :: "ExpenseCategory list" where
  "all_categories =
     [HOUSING, TRANSPORTATION, FOOD, UTILITIES, INSURANCE, MEDICAL_HEALTHCARE,
      SAVINGS, DEBT, EDUCATION, ENTERTAINMENT, OTHER]"

text \<open>Lookup of an enum member by its value, as pydantic does for an enum-typed field.\<close>

definition category_of_value :: "string \<Rightarrow> ExpenseCategory option" where
  "category_of_value s = find (\<lambda>c. category_value c = s) all_categories"

subsection \<open>Amounts and Python's \<^verbatim>\<open>round\<close>\<close>

text \<open>
  An amount is a finite Python float. An amount that enters the constructor is modelled
  by the rational number it denotes, and \<^verbatim>\<open>round(v, n)\<close> by the decimal that CPython
  computes from that exact value: the nearest multiple of \<open>10\<^sup>-\<^sup>n\<close>, a tie going to the
  even neighbour. The float that \<^verbatim>\<open>round\<close> returns is the double nearest to that
  decimal. Below \<open>10\<^sup>1\<^sup>3\<close> a decimal of two places has at most 15 significant digits, its
  nearest double prints as the decimal itself and no other such decimal has the same
  double; there the model takes the decimal for the float. From \<open>10\<^sup>1\<^sup>3\<close> on the float
  and the decimal differ (doubles are sparser than cents above \<open>2\<^sup>4\<^sup>6\<close>), and
  \<open>tracked_amount\<close> marks the range in which properties of stored amounts are stated.
  The non-finite floats are not modelled.
\<close>

definition round_half_even :: "rat \<Rightarrow> int" where
  "round_half_even x =
     (let f = \<lfloor>x\<rfloor>; d = x - of_int f
      in if d < 1 / 2 then f
         else if 1 / 2 < d then f + 1
         else if even f then f else f + 1)"

definition py_round :: "rat \<Rightarrow> nat \<Rightarrow> rat" where
  "py_round v n = of_int (round_half_even (v * 10 ^ n)) / 10 ^ n"

definition tracked_amount :: "rat \<Rightarrow> bool" where
  "tracked_amount a = (\<bar>a\<bar> < 10 ^ 13)"

subsection \<open>ExpenseExtraction\<close>

record ExpenseExtraction =
  is_expense :: bool
  description :: "string option"
  amount :: "rat option"
  category :: "ExpenseCategory option"

text \<open>
  What a caller hands to the constructor for one field: nothing (\<open>Absent\<close>), a value
  that pydantic's core validation refuses for the annotated type (\<open>Rejected\<close>: a list
  where a number is expected, a string that is no number), or a value of the annotated
  type after pydantic's coercion (\<open>Given\<close>). The category arrives as the string value
  of an enum member.
\<close>

datatype 'a field_input = Absent | Rejected | Given 'a

record ExtractionInput =
  in_is_expense :: "bool field_input"
  in_description :: "string option field_input"
  in_amount :: "rat option field_input"
  in_category :: "string option field_input"

text \<open>The \<^verbatim>\<open>field_validator("amount")\<close> of the class.\<close>

definition validate_amount :: "rat option \<Rightarrow> rat option" where
  "validate_amount v = (case v of Some x \<Rightarrow> Some (py_round x 2) | None \<Rightarrow> None)"

text \<open>
  Validation of each field; \<open>None\<close> is a validation error of that field.
  \<^verbatim>\<open>is_expense\<close> is required (\<^verbatim>\<open>Field(...)\<close>), the others default to \<^verbatim>\<open>None\<close>.
  For the amount the constraint \<^verbatim>\<open>gt=0\<close> belongs to the field's core schema and the
  field validator runs after it (pydantic's default mode), on the value that passed.
\<close>

definition check_is_expense :: "bool field_input \<Rightarrow> bool option" where
  "check_is_expense i = (case i of Absent \<Rightarrow> None | Rejected \<Rightarrow> None | Given b \<Rightarrow> Some b)"

definition check_description :: "string option field_input \<Rightarrow> string option option" where
  "check_description i = (case i of Absent \<Rightarrow> Some None | Rejected \<Rightarrow> None | Given d \<Rightarrow> Some d)"

definition check_amount :: "rat option field_input \<Rightarrow> rat option option" where
  "check_amount i =
     (case i of
        Absent \<Rightarrow> Some None
      | Rejected \<Rightarrow> None
      | Given None \<Rightarrow> Some (validate_amount None)
      | Given (Some x) \<Rightarrow> if 0 < x then Some (validate_amount (Some x)) else None)"

definition check_category :: "string option field_input \<Rightarrow> ExpenseCategory option option" where
  "check_category i =
     (case i of
        Absent \<Rightarrow> Some None
      | Rejected \<Rightarrow> None
      | Given None \<Rightarrow> Some None
      | Given (Some s) \<Rightarrow>
          (case category_of_value s of None \<Rightarrow> None | Some c \<Rightarrow> Some (Some c)))"

definition field_errors :: "ExtractionInput \<Rightarrow> string list" where
  "field_errors kw =
     (if check_is_expense (in_is_expense kw) = None then [''is_expense''] else []) @
     (if check_description (in_description kw) = None then [''description''] else []) @
     (if check_amount (in_amount kw) = None then [''amount''] else []) @
     (if check_category (in_category kw) = None then [''category''] else [])"

text \<open>
  \<^verbatim>\<open>ExpenseExtraction(**kw)\<close>: all fields are validated, and the construction raises one
  \<^verbatim>\<open>ValidationError\<close> naming every field that failed.
\<close>

definition ExpenseExtraction_init :: "ExtractionInput \<Rightarrow> exn + ExpenseExtraction" where
  "ExpenseExtraction_init kw =
     (case (check_is_expense (in_is_expense kw), check_description (in_description kw),
            check_amount (in_amount kw), check_category (in_category kw)) of
        (Some b, Some d, Some a, Some c) \<Rightarrow>
          Inr \<lparr>is_expense = b, description = d, amount = a, category = c\<rparr>
      | _ \<Rightarrow> Inl (ValidationError (field_errors kw)))"

section \<open>Strings\<close>

text \<open>
  A Python \<^verbatim>\<open>str\<close> is modelled by its UTF-8 bytes. \<^verbatim>\<open>len\<close> counts code points, that
  is the bytes that are not continuation bytes (\<open>10xxxxxx\<close>). \<^verbatim>\<open>lower\<close> is modelled on
  the ASCII letters; no other character lower-cases to an ASCII letter of the two
  needles the configuration searches for. Positions returned by \<^verbatim>\<open>find\<close> and
  \<^verbatim>\<open>rfind\<close> are byte offsets here: the needles are ASCII, so slicing at them cuts
  the same substring as slicing at Python's code-point offsets.
\<close>

definition py_len :: "string \<Rightarrow> nat" where
  "py_len s = length (filter (\<lambda>c. \<not> (128 \<le> (of_char c :: nat) \<and> (of_char c :: nat) < 192)) s)"

definition lower_char :: "char \<Rightarrow> char" where
  "lower_char c =
     (let n = (of_char c :: nat) in if 65 \<le> n \<and> n \<le> 90 then char_of (n + 32) else c)"

definition lower :: "string \<Rightarrow> string" where
  "lower s = map lower_char s"

text \<open>\<^verbatim>\<open>sub in s\<close>.\<close>

fun contains :: "string \<Rightarrow> string \<Rightarrow> bool" where
  "contains sub [] = (sub = [])"
| "contains sub (c # s) = (prefix sub (c # s) \<or> contains sub s)"

text \<open>\<^verbatim>\<open>s.find(c)\<close> and \<^verbatim>\<open>s.rfind(c)\<close> for a one-character needle.\<close>

definition py_find :: "string \<Rightarrow> char \<Rightarrow> int" where
  "py_find s c =
     (if c \<in> set s then int (length (takeWhile (\<lambda>x. x \<noteq> c) s)) else - 1)"

definition py_rfind :: "string \<Rightarrow> char \<Rightarrow> int" where
  "py_rfind s c =
     (if c \<in> set s
      then int (length s) - 1 - int (length (takeWhile (\<lambda>x. x \<noteq> c) (rev s)))
      else - 1)"

text \<open>\<^verbatim>\<open>s[start:stop]\<close>, negative bounds counting from the end, all bounds clamped.\<close>

definition slice_bound :: "nat \<Rightarrow> int \<Rightarrow> nat" where
  "slice_bound n i = (if i < 0 then nat (max 0 (int n + i)) else min n (nat i))"

definition py_slice :: "string \<Rightarrow> int \<Rightarrow> int \<Rightarrow> string" where
  "py_slice s start stop =
     (let a = slice_bound (length s) start; b = slice_bound (length s) stop
      in take (b - a) (drop a s))"

section \<open>utils/config.py\<close>

text \<open>The fields of \<^verbatim>\<open>Settings\<close> that select and configure the LLM client.\<close>

record Settings =
  openai_api_key :: "string option"
  anthropic_api_key :: "string option"
  llm_model :: string

definition get_llm_provider :: "Settings \<Rightarrow> string" where
  "get_llm_provider s =
     (if contains ''gpt'' (lower (llm_model s)) then ''openai''
      else if contains ''claude'' (lower (llm_model s)) then ''anthropic''
      else ''openai'')"

section \<open>services/llm_service.py\<close>

subsection \<open>Client construction\<close>

text \<open>The two client classes, with the arguments the service constructs them from.\<close>

datatype ChatModel =
    ChatOpenAI (model: string) (api_key: string) (temperature: rat)
  | ChatAnthropic (model: string) (api_key: string) (temperature: rat)

text \<open>\<^verbatim>\<open>not key\<close> holds of \<^verbatim>\<open>None\<close> and of the empty string.\<close>

definition initialize_llm :: "Settings \<Rightarrow> exn + ChatModel" where
  "initialize_llm s =
     (let provider = get_llm_provider s
      in if provider = ''openai'' then
           (case openai_api_key s of
              None \<Rightarrow> Inl (ValueError ''OpenAI API key is required but not configured'')
            | Some k \<Rightarrow>
                if k = [] then Inl (ValueError ''OpenAI API key is required but not configured'')
                else Inr (ChatOpenAI (llm_model s) k 0))
         else if provider = ''anthropic'' then
           (case anthropic_api_key s of
              None \<Rightarrow> Inl (ValueError ''Anthropic API key is required but not configured'')
            | Some k \<Rightarrow>
                if k = [] then Inl (ValueError ''Anthropic API key is required but not configured'')
                else Inr (ChatAnthropic (llm_model s) k 0))
         else Inl (ValueError (''Unsupported LLM provider: '' @ provider)))"

subsection \<open>Fallback parsing\<close>

text \<open>
  \<^verbatim>\<open>json.loads\<close> is the standard library's decoder and the reading of the decoded
  object into the inputs of the four fields is pydantic's; both are parameters
  (\<open>json_loads\<close>, \<open>kwargs\<close>) of the functions that use them.
\<close>

definition extract_and_parse_json ::
  "(string \<Rightarrow> exn + 'j) \<Rightarrow> ('j \<Rightarrow> exn + ExtractionInput) \<Rightarrow> string \<Rightarrow> exn + ExpenseExtraction"
where
  "extract_and_parse_json json_loads kwargs text =
     (let start_idx = py_find text CHR ''{'';
          end_idx = py_rfind text CHR ''}'' + 1
      in if start_idx = - 1 \<or> end_idx = 0 then Inl (ValueError ''No JSON found in response'')
         else
           (case json_loads (py_slice text start_idx end_idx) of
              Inl e \<Rightarrow> Inl e
            | Inr data \<Rightarrow>
                (case kwargs data of
                   Inl e \<Rightarrow> Inl e
                 | Inr kw \<Rightarrow> ExpenseExtraction_init kw)))"

text \<open>
  The strict parse as the specification words it: the raw text is parsed into an
  ExtractionResult directly, as exact JSON matching the schema.
\<close>

definition spec_strict_parse ::
  "(string \<Rightarrow> exn + 'j) \<Rightarrow> ('j \<Rightarrow> exn + ExtractionInput) \<Rightarrow> string \<Rightarrow> exn + ExpenseExtraction"
where
  "spec_strict_parse json_loads kwargs text =
     (case json_loads text of
        Inl e \<Rightarrow> Inl e
      | Inr data \<Rightarrow> (case kwargs data of Inl e \<Rightarrow> Inl e | Inr kw \<Rightarrow> ExpenseExtraction_init kw))"

subsection \<open>One attempt and the retry envelope\<close>

text \<open>
  The body of \<^verbatim>\<open>extract_expense\<close>, one attempt. \<open>chain k msg\<close> is what the \<open>k\<close>-th
  invocation of the chain (prompt and client) yields for the message: the completion
  text, or the exception of the provider. \<open>parser_parse\<close> is the output parser of the
  LLM framework. The inner handler \<^verbatim>\<open>except Exception\<close> turns to the fallback parse for
  what it catches. The outer handler logs and re-raises.
\<close>

definition extract_expense_body ::
  "(string \<Rightarrow> exn + ExpenseExtraction) \<Rightarrow> (string \<Rightarrow> exn + 'j) \<Rightarrow>
   ('j \<Rightarrow> exn + ExtractionInput) \<Rightarrow> (nat \<Rightarrow> string \<Rightarrow> exn + string) \<Rightarrow>
   nat \<Rightarrow> string \<Rightarrow> exn + ExpenseExtraction"
where
  "extract_expense_body parser_parse json_loads kwargs chain k msg =
     (case chain k msg of
        Inl e \<Rightarrow> Inl e
      | Inr response_text \<Rightarrow>
          (case parser_parse response_text of
             Inr parsed_data \<Rightarrow> Inr parsed_data
           | Inl parse_error \<Rightarrow>
               if is_Exception parse_error
               then extract_and_parse_json json_loads kwargs response_text
               else Inl parse_error))"

text \<open>
  The decorator \<^verbatim>\<open>retry(stop=stop_after_attempt(3), wait=wait_exponential(multiplier=1,
  min=2, max=10), reraise=True)\<close>: attempts are numbered from 1; an attempt is retried
  only when what it raised derives from \<^verbatim>\<open>Exception\<close> (the default retry condition),
  anything else is raised at once; after a failed attempt the stop condition is asked,
  and either the exception of that attempt is re-raised or the wait for that attempt is
  slept and the next attempt made.
\<close>

definition stop_after_attempt :: "nat \<Rightarrow> nat \<Rightarrow> bool" where
  "stop_after_attempt max_attempt_number attempt_number = (max_attempt_number \<le> attempt_number)"

definition wait_exponential :: "rat \<Rightarrow> rat \<Rightarrow> rat \<Rightarrow> nat \<Rightarrow> rat" where
  "wait_exponential multiplier mn mx attempt_number =
     max (max 0 mn) (min (multiplier * 2 ^ (attempt_number - 1)) mx)"

text \<open>
  The result of a retried call: what it returns or raises, the number of attempts made
  and the waits slept between them, in order.
\<close>

record 'a retried =
  outcome :: "exn + 'a"
  attempts :: nat
  sleeps :: "rat list"

function retrying ::
  "nat \<Rightarrow> (nat \<Rightarrow> rat) \<Rightarrow> (nat \<Rightarrow> exn + 'a) \<Rightarrow> nat \<Rightarrow> rat list \<Rightarrow> 'a retried"
where
  "retrying max_attempts wait attempt n slept =
     (case attempt n of
        Inr v \<Rightarrow> \<lparr>outcome = Inr v, attempts = n, sleeps = slept\<rparr>
      | Inl e \<Rightarrow>
          if \<not> is_Exception e
          then \<lparr>outcome = Inl e, attempts = n, sleeps = slept\<rparr>
          else if stop_after_attempt max_attempts n
          then \<lparr>outcome = Inl e, attempts = n, sleeps = slept\<rparr>
          else retrying max_attempts wait attempt (n + 1) (slept @ [wait n]))"
  by pat_completeness auto
termination
  by (relation "measure (\<lambda>(m, w, a, n, s). m - n)") (auto simp: stop_after_attempt_def)

definition extract_expense ::
  "(string \<Rightarrow> exn + ExpenseExtraction) \<Rightarrow> (string \<Rightarrow> exn + 'j) \<Rightarrow>
   ('j \<Rightarrow> exn + ExtractionInput) \<Rightarrow> (nat \<Rightarrow> string \<Rightarrow> exn + string) \<Rightarrow>
   string \<Rightarrow> ExpenseExtraction retried"
where
  "extract_expense parser_parse json_loads kwargs chain msg =
     retrying 3 (wait_exponential 1 2 10)
       (\<lambda>k. extract_expense_body parser_parse json_loads kwargs chain k msg) 1 []"

section \<open>schemas.py: ExpenseResponse and ExpenseCreate\<close>

record ExpenseResponse =
  success :: bool
  message :: string
  expense_id :: "int option"

record ExpenseCreate =
  create_user_id :: int
  create_description :: string
  create_amount :: rat
  create_category :: ExpenseCategory

text \<open>
  \<^verbatim>\<open>Decimal(str(x))\<close> of the amount of an extraction: in the tracked range \<^verbatim>\<open>str\<close> prints
  the decimal that stands for the float in this model, and \<^verbatim>\<open>Decimal\<close> reads it exactly.
  (Outside that range \<^verbatim>\<open>str\<close> prints the shortest decimal that reads back as the same
  float, another number than the rounded decimal; the model does not compute it.)
\<close>

definition Decimal_of_str :: "rat \<Rightarrow> rat" where
  "Decimal_of_str x = x"

text \<open>
  Validation of the fields of \<^verbatim>\<open>ExpenseCreate\<close>: \<^verbatim>\<open>user_id\<close> with \<^verbatim>\<open>gt=0\<close>, \<^verbatim>\<open>description\<close> with
  \<^verbatim>\<open>min_length=1, max_length=500\<close>, \<^verbatim>\<open>amount\<close> with \<^verbatim>\<open>gt=0, decimal_places=2\<close>, and a
  category of the enumeration. \<^verbatim>\<open>None\<close> is valid for none of them.
\<close>

definition check_user_id :: "int \<Rightarrow> bool" where
  "check_user_id u = (0 < u)"

definition check_create_description :: "string option \<Rightarrow> bool" where
  "check_create_description d =
     (case d of None \<Rightarrow> False | Some t \<Rightarrow> 1 \<le> py_len t \<and> py_len t \<le> 500)"

definition check_create_amount :: "rat option \<Rightarrow> bool" where
  "check_create_amount a =
     (case a of None \<Rightarrow> False | Some x \<Rightarrow> 0 < x \<and> of_int \<lfloor>x * 100\<rfloor> = x * 100)"

definition create_errors :: "int \<Rightarrow> string option \<Rightarrow> rat option \<Rightarrow> ExpenseCategory option \<Rightarrow> string list"
where
  "create_errors u d a c =
     (if check_user_id u then [] else [''user_id'']) @
     (if check_create_description d then [] else [''description'']) @
     (if check_create_amount a then [] else [''amount'']) @
     (if c = None then [''category''] else [])"

definition ExpenseCreate_init ::
  "int \<Rightarrow> string option \<Rightarrow> rat option \<Rightarrow> ExpenseCategory option \<Rightarrow> exn + ExpenseCreate"
where
  "ExpenseCreate_init u d a c =
     (case (d, a, c) of
        (Some t, Some x, Some k) \<Rightarrow>
          if create_errors u d a c = []
          then Inr \<lparr>create_user_id = u, create_description = t, create_amount = x,
                    create_category = k\<rparr>
          else Inl (ValidationError (create_errors u d a c))
      | _ \<Rightarrow> Inl (ValidationError (create_errors u d a c)))"

section \<open>models/models.py and the database session\<close>

text \<open>A row of the table \<^verbatim>\<open>expenses\<close>; the key and the timestamp are set by the insert.\<close>

record Expense =
  row_id :: "int option"
  row_user_id :: int
  row_description :: string
  row_amount :: rat
  row_category :: string
  row_added_at :: "nat option"

text \<open>
  The session as \<^verbatim>\<open>create_expense\<close> uses it: the committed rows of the table, the next
  key of the sequence, the clock that stamps a new row, and what the store does with
  the three calls of one insert. Each of them may raise; a failed \<^verbatim>\<open>add\<close> or \<^verbatim>\<open>commit\<close>
  writes no row, a failed \<^verbatim>\<open>refresh\<close> comes after the row was written.
\<close>

datatype db_fault = NoFault | AddFails exn | CommitFails exn | RefreshFails exn

record Session =
  rows :: "Expense list"
  next_id :: int
  clock :: nat
  fault :: db_fault

definition db_add :: "Session \<Rightarrow> Expense \<Rightarrow> exn + unit" where
  "db_add db e = (case fault db of AddFails x \<Rightarrow> Inl x | _ \<Rightarrow> Inr ())"

definition db_commit :: "Session \<Rightarrow> Expense \<Rightarrow> (exn + Expense) \<times> Session" where
  "db_commit db e =
     (case fault db of
        CommitFails x \<Rightarrow> (Inl x, db)
      | _ \<Rightarrow>
          (let stored = e\<lparr>row_id := Some (next_id db), row_added_at := Some (clock db)\<rparr>
           in (Inr stored, db\<lparr>rows := rows db @ [stored], next_id := next_id db + 1\<rparr>)))"

definition db_refresh :: "Session \<Rightarrow> Expense \<Rightarrow> exn + Expense" where
  "db_refresh db e = (case fault db of RefreshFails x \<Rightarrow> Inl x | _ \<Rightarrow> Inr e)"

section \<open>services/expense_service.py\<close>

definition create_expense :: "ExpenseCreate \<Rightarrow> Session \<Rightarrow> (exn + Expense) \<times> Session" where
  "create_expense expense_data db =
     (let expense = \<lparr>row_id = None, row_user_id = create_user_id expense_data,
                      row_description = create_description expense_data,
                      row_amount = create_amount expense_data,
                      row_category = category_value (create_category expense_data),
                      row_added_at = None\<rparr>
      in case db_add db expense of
           Inl x \<Rightarrow> (Inl x, db)
         | Inr _ \<Rightarrow>
             (case db_commit db expense of
                (Inl x, db') \<Rightarrow> (Inl x, db')
              | (Inr stored, db') \<Rightarrow> (db_refresh db' stored, db')))"

text \<open>Truth values of the three fields inside \<^verbatim>\<open>all([...])\<close>.\<close>

definition truthy_str :: "string option \<Rightarrow> bool" where
  "truthy_str d = (case d of None \<Rightarrow> False | Some t \<Rightarrow> t \<noteq> [])"

definition truthy_float :: "rat option \<Rightarrow> bool" where
  "truthy_float a = (case a of None \<Rightarrow> False | Some x \<Rightarrow> x \<noteq> 0)"

definition truthy_category :: "ExpenseCategory option \<Rightarrow> bool" where
  "truthy_category c = (case c of None \<Rightarrow> False | Some k \<Rightarrow> category_value k \<noteq> [])"

definition msg_not_expense :: string where
  "msg_not_expense =
     ''This doesn't look like an expense. Try something like: '' @ [CHR 0x27] @
     ''Pizza 20 reais'' @ [CHR 0x27]"

definition msg_incomplete :: string where
  "msg_incomplete =
     ''Could not extract all expense details. Please provide description, amount, and try again.''"

definition msg_error :: string where
  "msg_error = ''Sorry, there was an error processing your expense. Please try again.''"

text \<open>
  The confirmation. The literal of the source file ends in the three characters U+00E2,
  U+0153 and U+2026, seven bytes in UTF-8.
\<close>

definition msg_added :: "ExpenseCategory \<Rightarrow> string" where
  "msg_added c =
     category_value c @ '' expense added '' @
     [CHR 0xC3, CHR 0xA2, CHR 0xC5, CHR 0x93, CHR 0xE2, CHR 0x80, CHR 0xA6]"

text \<open>
  The body of the \<^verbatim>\<open>try\<close> block of \<^verbatim>\<open>process_message\<close>. \<open>extract\<close> is the method
  \<^verbatim>\<open>extract_expense\<close> of the LLM service the expense service was built with. Logging
  has no effect on the result and is left out.
\<close>

definition process_message_try ::
  "(string \<Rightarrow> exn + ExpenseExtraction) \<Rightarrow> int \<Rightarrow> string \<Rightarrow> Session \<Rightarrow>
   (exn + ExpenseResponse) \<times> Session"
where
  "process_message_try extract user_id msg db =
     (case extract msg of
        Inl e \<Rightarrow> (Inl e, db)
      | Inr extraction \<Rightarrow>
          if \<not> is_expense extraction
          then (Inr \<lparr>success = False, message = msg_not_expense, expense_id = None\<rparr>, db)
          else if \<not> list_all id [truthy_str (description extraction),
                                  truthy_float (amount extraction),
                                  truthy_category (category extraction)]
          then (Inr \<lparr>success = False, message = msg_incomplete, expense_id = None\<rparr>, db)
          else
            (case ExpenseCreate_init user_id (description extraction)
                    (map_option Decimal_of_str (amount extraction)) (category extraction) of
               Inl e \<Rightarrow> (Inl e, db)
             | Inr expense_create \<Rightarrow>
                 (case create_expense expense_create db of
                    (Inl e, db') \<Rightarrow> (Inl e, db')
                  | (Inr expense, db') \<Rightarrow>
                      (case category extraction of
                         None \<Rightarrow> (Inl (AttributeError ''value''), db')
                       | Some c \<Rightarrow>
                           (Inr \<lparr>success = True, message = msg_added c,
                                 expense_id = row_id expense\<rparr>, db')))))"

text \<open>
  \<^verbatim>\<open>process_message\<close>: the \<^verbatim>\<open>try\<close> block under its handler \<^verbatim>\<open>except Exception\<close>, which
  answers what it catches with the generic error; what it does not catch reaches the
  caller.
\<close>

definition process_message ::
  "(string \<Rightarrow> exn + ExpenseExtraction) \<Rightarrow> int \<Rightarrow> string \<Rightarrow> Session \<Rightarrow>
   (exn + ExpenseResponse) \<times> Session"
where
  "process_message extract user_id msg db =
     (case process_message_try extract user_id msg db of
        (Inr response, db') \<Rightarrow> (Inr response, db')
      | (Inl e, db') \<Rightarrow>
          if is_Exception e
          then (Inr \<lparr>success = False, message = msg_error, expense_id = None\<rparr>, db')
          else (Inl e, db'))"

section \<open>Sample collaborators\<close>

text \<open>
  A decoder, three providers and a session on which the properties below are exercised.
  The decoder knows three completions; the first provider times out twice and then
  answers with prose around the JSON, the second never answers with JSON, the third
  always answers with an amount of -5.
\<close>

definition sample_json_loads :: "string \<Rightarrow> exn + ExtractionInput" where
  \<open>sample_json_loads s =
     (if s = ''{"is_expense":false}''
      then Inr \<lparr>in_is_expense = Given False, in_description = Absent, in_amount = Absent,
                in_category = Absent\<rparr>
      else if s = ''{"is_expense":true,"description":"Pizza","amount":20.0,"category":"Food"}''
      then Inr \<lparr>in_is_expense = Given True, in_description = Given (Some ''Pizza''),
                in_amount = Given (Some 20), in_category = Given (Some ''Food'')\<rparr>
      else if s = ''{"is_expense":true,"description":"Pizza","amount":-5,"category":"Food"}''
      then Inr \<lparr>in_is_expense = Given True, in_description = Given (Some ''Pizza''),
                in_amount = Given (Some (- 5)), in_category = Given (Some ''Food'')\<rparr>
      else Inl (JSONDecodeError s))\<close>

definition sample_chain :: "nat \<Rightarrow> string \<Rightarrow> exn + string" where
  \<open>sample_chain k msg =
     (if k < 3 then Inl (RuntimeFailure ''timeout'') else Inr ''Sure! {"is_expense":false}'')\<close>

definition failing_chain :: "nat \<Rightarrow> string \<Rightarrow> exn + string" where
  \<open>failing_chain k msg = (if k < 3 then Inl (RuntimeFailure ''timeout'') else Inr ''no json'')\<close>

definition negative_chain :: "nat \<Rightarrow> string \<Rightarrow> exn + string" where
  \<open>negative_chain k msg =
     Inr ''{"is_expense":true,"description":"Pizza","amount":-5,"category":"Food"}''\<close>

definition empty_db :: Session where
  "empty_db = \<lparr>rows = [], next_id = 1, clock = 0, fault = NoFault\<rparr>"

section \<open>Properties of the schemas\<close>

lemma round_half_even_tie: "round_half_even (of_int k + 1 / 2) = (if even k then k else k + 1)"
proof -
  have "\<lfloor>(of_int k + 1 / 2 :: rat)\<rfloor> = k" by linarith
  then show ?thesis by (simp add: round_half_even_def Let_def)
qed

text \<open>
  Claim C9. At an exact half-cent boundary the rounding of the amount at construction
  goes to the even neighbour, not up: the amount 0.125 (exactly representable) becomes
  0.12 and not 0.13, and so for every tie \<open>(k + 1/2) / 100\<close>; away from a boundary
  20.999 (as the decimal, and as the double nearest to it) becomes 21.0.
\<close>

theorem validate_amount_half_even:
  "validate_amount (Some (1 / 8)) = Some (12 / 100)
   \<and> validate_amount (Some (1 / 8)) \<noteq> Some (13 / 100)
   \<and> validate_amount (Some (5910693035947065 / 2 ^ 48)) = Some 21
   \<and> validate_amount (Some (20999 / 1000)) = Some 21
   \<and> py_round ((of_int k + 1 / 2) / 100) 2 = of_int (if even k then k else k + 1) / 100"
proof -
  have a: "validate_amount (Some (1 / 8)) = Some (12 / 100)" by code_simp
  have b: "validate_amount (Some (1 / 8)) \<noteq> Some (13 / 100)" by code_simp
  have c: "validate_amount (Some (5910693035947065 / 2 ^ 48)) = Some 21" by code_simp
  have d: "validate_amount (Some (20999 / 1000)) = Some 21" by code_simp
  have e: "py_round ((of_int k + 1 / 2) / 100) 2 = of_int (if even k then k else k + 1) / 100"
  proof -
    have eq: "(of_int k + 1 / 2) / 100 * 10 ^ 2 = (of_int k + 1 / 2 :: rat)" by simp
    have "py_round ((of_int k + 1 / 2) / 100) 2
            = of_int (round_half_even (of_int k + 1 / 2)) / 10 ^ 2"
      unfolding py_round_def eq ..
    also have "\<dots> = of_int (if even k then k else k + 1) / 100"
      unfolding round_half_even_tie by simp
    finally show ?thesis .
  qed
  from a b c d e show ?thesis by blast
qed

section \<open>Properties of the client construction\<close>

lemma contains_iff: "contains sub s \<longleftrightarrow> (\<exists>pre post. s = pre @ sub @ post)"
proof (induction s)
  case Nil
  then show ?case by simp
next
  case (Cons c s)
  show ?case
  proof
    assume "contains sub (c # s)"
    then consider "prefix sub (c # s)" | "contains sub s" by auto
    then show "\<exists>pre post. c # s = pre @ sub @ post"
    proof cases
      case 1
      then obtain post where "c # s = sub @ post" by (auto simp: prefix_def)
      then have "c # s = [] @ sub @ post" by simp
      then show ?thesis by blast
    next
      case 2
      then obtain pre post where "s = pre @ sub @ post" using Cons.IH by blast
      then have "c # s = (c # pre) @ sub @ post" by simp
      then show ?thesis by blast
    qed
  next
    assume "\<exists>pre post. c # s = pre @ sub @ post"
    then obtain pre post where e: "c # s = pre @ sub @ post" by blast
    show "contains sub (c # s)"
    proof (cases pre)
      case Nil
      then have "prefix sub (c # s)" using e by (simp add: prefix_def)
      then show ?thesis by simp
    next
      case (Cons a pre')
      then have "s = pre' @ sub @ post" using e by simp
      then show ?thesis using Cons.IH by auto
    qed
  qed
qed

lemma provider_cases: "get_llm_provider s = ''openai'' \<or> get_llm_provider s = ''anthropic''"
  by (simp add: get_llm_provider_def)

text \<open>
  Claim C10. For every settings value the provider selection returns "openai" or
  "anthropic", so the client construction never raises "Unsupported LLM provider", and
  when it raises, it raises one of the two errors of a missing credential.
\<close>

theorem unsupported_provider_unreachable:
  "(get_llm_provider s = ''openai'' \<or> get_llm_provider s = ''anthropic'')
   \<and> (\<forall>p. initialize_llm s \<noteq> Inl (ValueError (''Unsupported LLM provider: '' @ p)))
   \<and> (\<forall>e. initialize_llm s = Inl e \<longrightarrow>
         e = ValueError ''OpenAI API key is required but not configured'' \<or>
         e = ValueError ''Anthropic API key is required but not configured'')"
  using provider_cases [of s]
  by (auto simp: initialize_llm_def Let_def split: option.splits if_splits)

theorem unsupported_provider_unreachable_witness:
  "initialize_llm \<lparr>openai_api_key = None, anthropic_api_key = Some ''k'', llm_model = ''gpt-4''\<rparr>
     = Inl (ValueError ''OpenAI API key is required but not configured'')"
proof -
  have h: "initialize_llm \<lparr>openai_api_key = None, anthropic_api_key = Some ''k'', llm_model = ''gpt-4''\<rparr>
             = Inl (ValueError ''OpenAI API key is required but not configured'')"
    by code_simp
  from unsupported_provider_unreachable
         [of "\<lparr>openai_api_key = None, anthropic_api_key = Some ''k'', llm_model = ''gpt-4''\<rparr>"] h
  show ?thesis by simp
qed

text \<open>
  Claim C8, as the code has it. The model name is lower-cased before it is searched: a
  name whose lower-case form contains "gpt" selects OpenAI; otherwise one whose
  lower-case form contains "claude" selects Anthropic; any other name selects OpenAI.
  When the key of the selected provider is \<^verbatim>\<open>None\<close> or empty the construction of the
  client raises a ValueError, and with a key it returns the client of that provider for
  the configured model at temperature 0.
\<close>

theorem provider_selection_and_credentials:
  "((\<exists>pre post. lower (llm_model s) = pre @ ''gpt'' @ post) \<longrightarrow> get_llm_provider s = ''openai'')
   \<and> (\<not> (\<exists>pre post. lower (llm_model s) = pre @ ''gpt'' @ post) \<and>
        (\<exists>pre post. lower (llm_model s) = pre @ ''claude'' @ post) \<longrightarrow>
          get_llm_provider s = ''anthropic'')
   \<and> (\<not> (\<exists>pre post. lower (llm_model s) = pre @ ''gpt'' @ post) \<and>
        \<not> (\<exists>pre post. lower (llm_model s) = pre @ ''claude'' @ post) \<longrightarrow>
          get_llm_provider s = ''openai'')
   \<and> (get_llm_provider s = ''openai'' \<and> (openai_api_key s = None \<or> openai_api_key s = Some []) \<longrightarrow>
        initialize_llm s = Inl (ValueError ''OpenAI API key is required but not configured''))
   \<and> (get_llm_provider s = ''anthropic'' \<and>
        (anthropic_api_key s = None \<or> anthropic_api_key s = Some []) \<longrightarrow>
        initialize_llm s = Inl (ValueError ''Anthropic API key is required but not configured''))
   \<and> (\<forall>k. get_llm_provider s = ''openai'' \<and> openai_api_key s = Some k \<and> k \<noteq> [] \<longrightarrow>
        initialize_llm s = Inr (ChatOpenAI (llm_model s) k 0))
   \<and> (\<forall>k. get_llm_provider s = ''anthropic'' \<and> anthropic_api_key s = Some k \<and> k \<noteq> [] \<longrightarrow>
        initialize_llm s = Inr (ChatAnthropic (llm_model s) k 0))"
proof -
  define G where "G = contains ''gpt'' (lower (llm_model s))"
  define C where "C = contains ''claude'' (lower (llm_model s))"
  have g: "(\<exists>pre post. lower (llm_model s) = pre @ ''gpt'' @ post) = G"
    unfolding G_def by (rule contains_iff [symmetric])
  have c: "(\<exists>pre post. lower (llm_model s) = pre @ ''claude'' @ post) = C"
    unfolding C_def by (rule contains_iff [symmetric])
  have sel: "get_llm_provider s = (if G then ''openai'' else if C then ''anthropic'' else ''openai'')"
    unfolding get_llm_provider_def G_def C_def ..
  have 1: "G \<longrightarrow> get_llm_provider s = ''openai''" by (simp add: sel)
  have 2: "\<not> G \<and> C \<longrightarrow> get_llm_provider s = ''anthropic''" by (simp add: sel)
  have 3: "\<not> G \<and> \<not> C \<longrightarrow> get_llm_provider s = ''openai''" by (simp add: sel)
  have 4: "get_llm_provider s = ''openai'' \<and> (openai_api_key s = None \<or> openai_api_key s = Some []) \<longrightarrow>
      initialize_llm s = Inl (ValueError ''OpenAI API key is required but not configured'')"
    by (auto simp: initialize_llm_def)
  have 5: "get_llm_provider s = ''anthropic'' \<and>
      (anthropic_api_key s = None \<or> anthropic_api_key s = Some []) \<longrightarrow>
      initialize_llm s = Inl (ValueError ''Anthropic API key is required but not configured'')"
    by (auto simp: initialize_llm_def)
  have 6: "\<forall>k. get_llm_provider s = ''openai'' \<and> openai_api_key s = Some k \<and> k \<noteq> [] \<longrightarrow>
      initialize_llm s = Inr (ChatOpenAI (llm_model s) k 0)"
    by (simp add: initialize_llm_def)
  have 7: "\<forall>k. get_llm_provider s = ''anthropic'' \<and> anthropic_api_key s = Some k \<and> k \<noteq> [] \<longrightarrow>
      initialize_llm s = Inr (ChatAnthropic (llm_model s) k 0)"
    by (simp add: initialize_llm_def)
  show ?thesis unfolding g c using 1 2 3 4 5 6 7 by (intro conjI)
qed

theorem provider_selection_and_credentials_witness:
  "lower ''Claude-3-Sonnet'' = [] @ ''claude'' @ ''-3-sonnet'' \<and>
   get_llm_provider
     \<lparr>openai_api_key = Some ''sk-1'', anthropic_api_key = None, llm_model = ''Claude-3-Sonnet''\<rparr>
     = ''anthropic'' \<and>
   initialize_llm
     \<lparr>openai_api_key = Some ''sk-1'', anthropic_api_key = None, llm_model = ''Claude-3-Sonnet''\<rparr>
     = Inl (ValueError ''Anthropic API key is required but not configured'')"
proof -
  let ?s = "\<lparr>openai_api_key = Some ''sk-1'', anthropic_api_key = None,
             llm_model = ''Claude-3-Sonnet''\<rparr>"
  have l: "lower ''Claude-3-Sonnet'' = [] @ ''claude'' @ ''-3-sonnet''" by code_simp
  have p: "get_llm_provider ?s = ''anthropic''" by code_simp
  have k: "anthropic_api_key ?s = None" by simp
  have "get_llm_provider ?s = ''anthropic'' \<and>
        (anthropic_api_key ?s = None \<or> anthropic_api_key ?s = Some []) \<longrightarrow>
      initialize_llm ?s = Inl (ValueError ''Anthropic API key is required but not configured'')"
    using provider_selection_and_credentials [of ?s] by (elim conjE)
  with p k have "initialize_llm ?s
                   = Inl (ValueError ''Anthropic API key is required but not configured'')"
    by (elim impE) (intro conjI disjI1)
  with l p show ?thesis by (intro conjI)
qed

text \<open>
  Claim C8 as stated fails on the model name "Claude-3": it contains neither "gpt" nor
  "claude", so the stated rule defaults to OpenAI, whose key is configured here; the
  code selects Anthropic and the construction fails for the missing Anthropic key.
\<close>

theorem provider_selection_counterexample:
  "\<not> contains ''gpt'' ''Claude-3'' \<and> \<not> contains ''claude'' ''Claude-3'' \<and>
   get_llm_provider
     \<lparr>openai_api_key = Some ''sk-1'', anthropic_api_key = None, llm_model = ''Claude-3''\<rparr>
     = ''anthropic'' \<and>
   initialize_llm
     \<lparr>openai_api_key = Some ''sk-1'', anthropic_api_key = None, llm_model = ''Claude-3''\<rparr>
     = Inl (ValueError ''Anthropic API key is required but not configured'')"
  by code_simp

section \<open>Properties of the fallback parse\<close>

lemma takeWhile_neq_all: "c \<notin> set xs \<Longrightarrow> takeWhile (\<lambda>x. x \<noteq> c) (xs @ c # ys) = xs"
  by (induction xs) auto

lemma py_find_first: "c \<notin> set pre \<Longrightarrow> py_find (pre @ c # rest) c = int (length pre)"
  by (simp add: py_find_def takeWhile_neq_all)

lemma py_rfind_last: "c \<notin> set post \<Longrightarrow> py_rfind (xs @ c # post) c = int (length xs)"
proof -
  assume a: "c \<notin> set post"
  have "takeWhile (\<lambda>x. x \<noteq> c) (rev post @ c # rev xs) = rev post"
    using a takeWhile_neq_all [of c "rev post" "rev xs"] by simp
  then show ?thesis by (simp add: py_rfind_def)
qed

lemma py_slice_middle:
  "py_slice (pre @ js @ post) (int (length pre)) (int (length pre) + int (length js)) = js"
  by (simp add: py_slice_def slice_bound_def Let_def nat_add_distrib)

lemma py_find_absent: "c \<notin> set s \<Longrightarrow> py_find s c = - 1"
  by (simp add: py_find_def)

lemma py_rfind_absent: "c \<notin> set s \<Longrightarrow> py_rfind s c = - 1"
  by (simp add: py_rfind_def)

text \<open>
  Claim C5. The fallback parse cuts the text from its first opening brace to its last
  closing brace, decodes the cut and constructs the result from it: on a text made of a
  JSON object between prose without braces it yields what the strict parse yields on
  the object alone, and on a text without an opening or without a closing brace it
  raises and yields no result.
\<close>

theorem fallback_parse_embedded_json:
  "(CHR ''{'' \<notin> set pre \<and> CHR ''}'' \<notin> set post \<longrightarrow>
      extract_and_parse_json json_loads kwargs (pre @ (CHR ''{'' # body @ [CHR ''}'']) @ post)
        = spec_strict_parse json_loads kwargs (CHR ''{'' # body @ [CHR ''}'']))
   \<and> (CHR ''{'' \<notin> set text \<or> CHR ''}'' \<notin> set text \<longrightarrow>
      extract_and_parse_json json_loads kwargs text
        = Inl (ValueError ''No JSON found in response''))"
proof (intro conjI impI)
  assume a: "CHR ''{'' \<notin> set pre \<and> CHR ''}'' \<notin> set post"
  let ?js = "CHR ''{'' # body @ [CHR ''}'']"
  let ?t = "pre @ ?js @ post"
  have s: "py_find ?t CHR ''{'' = int (length pre)"
    using a py_find_first [of "CHR ''{''" pre "body @ [CHR ''}''] @ post"] by simp
  have "py_rfind ((pre @ CHR ''{'' # body) @ CHR ''}'' # post) CHR ''}''
          = int (length (pre @ CHR ''{'' # body))"
    using a by (intro py_rfind_last) simp
  then have e: "py_rfind ?t CHR ''}'' + 1 = int (length pre) + int (length ?js)" by simp
  have sl: "py_slice ?t (int (length pre)) (int (length pre) + int (length ?js)) = ?js"
    by (rule py_slice_middle)
  show "extract_and_parse_json json_loads kwargs ?t = spec_strict_parse json_loads kwargs ?js"
    unfolding extract_and_parse_json_def spec_strict_parse_def Let_def s e sl by simp
next
  assume "CHR ''{'' \<notin> set text \<or> CHR ''}'' \<notin> set text"
  then show "extract_and_parse_json json_loads kwargs text
               = Inl (ValueError ''No JSON found in response'')"
    by (auto simp: extract_and_parse_json_def Let_def py_find_absent py_rfind_absent)
qed

theorem fallback_parse_embedded_json_witness:
  \<open>CHR ''{'' \<notin> set ''blah blah '' \<and> CHR ''}'' \<notin> set '' trailing'' \<and>
   extract_and_parse_json sample_json_loads Inr ''blah blah {"is_expense":false} trailing''
     = spec_strict_parse sample_json_loads Inr ''{"is_expense":false}'' \<and>
   spec_strict_parse sample_json_loads Inr ''{"is_expense":false}''
     = Inr \<lparr>is_expense = False, description = None, amount = None, category = None\<rparr> \<and>
   CHR ''{'' \<notin> set ''no json here'' \<and>
   extract_and_parse_json sample_json_loads Inr ''no json here''
     = Inl (ValueError ''No JSON found in response'')\<close>
proof -
  have h: \<open>CHR ''{'' \<notin> set ''blah blah '' \<and> CHR ''}'' \<notin> set '' trailing''\<close> by simp
  have h2: \<open>CHR ''{'' \<notin> set ''no json here''\<close> by simp
  have e: \<open>spec_strict_parse sample_json_loads Inr ''{"is_expense":false}''
     = Inr \<lparr>is_expense = False, description = None, amount = None, category = None\<rparr>\<close>
    by code_simp
  note t = fallback_parse_embedded_json
       [of \<open>''blah blah ''\<close> \<open>'' trailing''\<close> sample_json_loads Inr
       \<open>''"is_expense":false''\<close> \<open>''no json here''\<close>]
  have a: \<open>extract_and_parse_json sample_json_loads Inr
             (''blah blah '' @ (CHR ''{'' # ''"is_expense":false'' @ [CHR ''}'']) @ '' trailing'')
     = spec_strict_parse sample_json_loads Inr (CHR ''{'' # ''"is_expense":false'' @ [CHR ''}''])\<close>
    by (rule t [THEN conjunct1, THEN mp, OF h])
  have b: \<open>extract_and_parse_json sample_json_loads Inr ''no json here''
     = Inl (ValueError ''No JSON found in response'')\<close>
    by (rule t [THEN conjunct2, THEN mp, OF disjI1, OF h2])
  from a have a': \<open>extract_and_parse_json sample_json_loads Inr
                     ''blah blah {"is_expense":false} trailing''
     = spec_strict_parse sample_json_loads Inr ''{"is_expense":false}''\<close>
    by (simp only: append.simps)
  from h h2 a' e b show ?thesis by blast
qed

section \<open>Properties of the retry envelope\<close>

lemma retrying_unfold3:
  "retrying 3 w step 1 [] =
     (case step 1 of Inr v \<Rightarrow> \<lparr>outcome = Inr v, attempts = 1, sleeps = []\<rparr>
      | Inl e1 \<Rightarrow>
         if \<not> is_Exception e1 then \<lparr>outcome = Inl e1, attempts = 1, sleeps = []\<rparr>
         else (case step 2 of Inr v \<Rightarrow> \<lparr>outcome = Inr v, attempts = 2, sleeps = [w 1]\<rparr>
      | Inl e2 \<Rightarrow>
         if \<not> is_Exception e2 then \<lparr>outcome = Inl e2, attempts = 2, sleeps = [w 1]\<rparr>
         else \<lparr>outcome = step 3, attempts = 3, sleeps = [w 1, w 2]\<rparr>))"
proof -
  have 3: "retrying 3 w step 3 s = \<lparr>outcome = step 3, attempts = 3, sleeps = s\<rparr>" for s
    by (subst retrying.simps) (simp add: stop_after_attempt_def split: sum.splits)
  have 2: "retrying 3 w step 2 s = (case step 2 of Inr v \<Rightarrow> \<lparr>outcome = Inr v, attempts = 2, sleeps = s\<rparr>
      | Inl e2 \<Rightarrow> if \<not> is_Exception e2 then \<lparr>outcome = Inl e2, attempts = 2, sleeps = s\<rparr>
         else \<lparr>outcome = step 3, attempts = 3, sleeps = s @ [w 2]\<rparr>)" for s
    using 3 [of "s @ [w 2]"]
    by (subst retrying.simps) (simp add: stop_after_attempt_def numeral_3_eq_3 numeral_2_eq_2 split: sum.splits)
  show ?thesis
    using 2 [of "[w 1]"]
    by (subst retrying.simps) (simp add: stop_after_attempt_def numeral_2_eq_2 split: sum.splits)
qed

lemma wait_vals: "wait_exponential 1 2 10 1 = 2" "wait_exponential 1 2 10 2 = 2"
  by (simp_all add: wait_exponential_def)

lemma wait_policy:
  "wait_exponential 1 2 10 n = (if n \<le> 2 then 2 else if n = 3 then 4 else if n = 4 then 8 else 10)"
proof -
  consider "n = 0" | "n = 1" | "n = 2" | "n = 3" | "n = 4" | "5 \<le> n" by linarith
  then show ?thesis
  proof cases
    case 6
    then have "4 \<le> n - 1" by simp
    then have "(2::rat) ^ 4 \<le> 2 ^ (n - 1)" by (intro power_increasing) simp_all
    then have "(10::rat) \<le> 2 ^ (n - 1)" by simp
    with 6 show ?thesis by (simp add: wait_exponential_def min_def max_def)
  qed (simp_all add: wait_exponential_def)
qed

lemma extract_expense_unfold:
  "extract_expense p l kw chain msg =
     (case extract_expense_body p l kw chain 1 msg of
        Inr v \<Rightarrow> \<lparr>outcome = Inr v, attempts = 1, sleeps = []\<rparr>
      | Inl e1 \<Rightarrow>
         if \<not> is_Exception e1 then \<lparr>outcome = Inl e1, attempts = 1, sleeps = []\<rparr>
         else
         (case extract_expense_body p l kw chain 2 msg of
            Inr v \<Rightarrow> \<lparr>outcome = Inr v, attempts = 2, sleeps = [2]\<rparr>
          | Inl e2 \<Rightarrow>
             if \<not> is_Exception e2 then \<lparr>outcome = Inl e2, attempts = 2, sleeps = [2]\<rparr>
             else \<lparr>outcome = extract_expense_body p l kw chain 3 msg, attempts = 3,
                        sleeps = [2, 2]\<rparr>))"
  unfolding extract_expense_def retrying_unfold3 wait_vals ..

lemma body_cong: "chain k msg = chain' k msg \<Longrightarrow>
   extract_expense_body p l kw chain k msg = extract_expense_body p l kw chain' k msg"
  by (simp add: extract_expense_body_def)

text \<open>
  Claim C4, as the code has it. An extraction makes at least one and at most three
  attempts, each the call of the chain followed by the parse, and returns what its last
  attempt returned. An attempt that succeeds ends it at once, after no wait, after one
  wait of 2 or after two waits of 2 time-units. When the first two attempts fail with
  exceptions derived from Exception and the third succeeds the extraction succeeds;
  when all three fail the error of the third is raised to the caller. An exception that
  does not derive from Exception is raised at once and not retried. The wait after
  attempt n is the exponential \<open>2\<^sup>n\<^sup>-\<^sup>1\<close> held between 2 and 10, that is 2, 2, 4, 8, 10,
  10, ...; only the first two are ever slept, so both waits are 2 time-units. What the
  chain would answer to a fourth call has no influence on the result.
\<close>

theorem extract_expense_retry_bound:
  "(\<forall>v. extract_expense_body p l kw chain 1 msg = Inr v \<longrightarrow>
       extract_expense p l kw chain msg = \<lparr>outcome = Inr v, attempts = 1, sleeps = []\<rparr>)
   \<and> (\<forall>e1 v. extract_expense_body p l kw chain 1 msg = Inl e1 \<and> is_Exception e1 \<and>
               extract_expense_body p l kw chain 2 msg = Inr v \<longrightarrow>
       extract_expense p l kw chain msg = \<lparr>outcome = Inr v, attempts = 2, sleeps = [2]\<rparr>)
   \<and> (\<forall>e1 e2 v. extract_expense_body p l kw chain 1 msg = Inl e1 \<and> is_Exception e1 \<and>
               extract_expense_body p l kw chain 2 msg = Inl e2 \<and> is_Exception e2 \<and>
               extract_expense_body p l kw chain 3 msg = Inr v \<longrightarrow>
       extract_expense p l kw chain msg = \<lparr>outcome = Inr v, attempts = 3, sleeps = [2, 2]\<rparr>)
   \<and> (\<forall>e1 e2 e3. extract_expense_body p l kw chain 1 msg = Inl e1 \<and> is_Exception e1 \<and>
               extract_expense_body p l kw chain 2 msg = Inl e2 \<and> is_Exception e2 \<and>
               extract_expense_body p l kw chain 3 msg = Inl e3 \<longrightarrow>
       extract_expense p l kw chain msg = \<lparr>outcome = Inl e3, attempts = 3, sleeps = [2, 2]\<rparr>)
   \<and> (\<forall>e1. extract_expense_body p l kw chain 1 msg = Inl e1 \<and> \<not> is_Exception e1 \<longrightarrow>
       extract_expense p l kw chain msg = \<lparr>outcome = Inl e1, attempts = 1, sleeps = []\<rparr>)
   \<and> (\<forall>e1 e2. extract_expense_body p l kw chain 1 msg = Inl e1 \<and> is_Exception e1 \<and>
               extract_expense_body p l kw chain 2 msg = Inl e2 \<and> \<not> is_Exception e2 \<longrightarrow>
       extract_expense p l kw chain msg = \<lparr>outcome = Inl e2, attempts = 2, sleeps = [2]\<rparr>)
   \<and> 1 \<le> attempts (extract_expense p l kw chain msg)
   \<and> attempts (extract_expense p l kw chain msg) \<le> 3
   \<and> outcome (extract_expense p l kw chain msg)
       = extract_expense_body p l kw chain (attempts (extract_expense p l kw chain msg)) msg
   \<and> length (sleeps (extract_expense p l kw chain msg)) + 1
       = attempts (extract_expense p l kw chain msg)
   \<and> (\<forall>w \<in> set (sleeps (extract_expense p l kw chain msg)). 2 \<le> w \<and> w \<le> 10)
   \<and> (sleeps (extract_expense p l kw chain msg) \<noteq> [] \<longrightarrow>
          hd (sleeps (extract_expense p l kw chain msg)) = 2)
   \<and> ((\<forall>k \<in> {1, 2, 3}. chain' k msg = chain k msg) \<longrightarrow>
         extract_expense p l kw chain' msg = extract_expense p l kw chain msg)
   \<and> (\<forall>n. wait_exponential 1 2 10 n
          = (if n \<le> 2 then 2 else if n = 3 then 4 else if n = 4 then 8 else 10))"
proof -
  let ?r = "extract_expense p l kw chain msg"
  let ?b = "\<lambda>k. extract_expense_body p l kw chain k msg"
  note u = extract_expense_unfold [of p l kw chain msg]
  have a1: "\<forall>v. ?b 1 = Inr v \<longrightarrow> ?r = \<lparr>outcome = Inr v, attempts = 1, sleeps = []\<rparr>"
    by (simp add: u)
  have a2: "\<forall>e1 v. ?b 1 = Inl e1 \<and> is_Exception e1 \<and> ?b 2 = Inr v \<longrightarrow>
       ?r = \<lparr>outcome = Inr v, attempts = 2, sleeps = [2]\<rparr>"
    by (simp add: u)
  have a3: "\<forall>e1 e2 v. ?b 1 = Inl e1 \<and> is_Exception e1 \<and> ?b 2 = Inl e2 \<and> is_Exception e2 \<and>
       ?b 3 = Inr v \<longrightarrow> ?r = \<lparr>outcome = Inr v, attempts = 3, sleeps = [2, 2]\<rparr>"
    by (simp add: u)
  have a4: "\<forall>e1 e2 e3. ?b 1 = Inl e1 \<and> is_Exception e1 \<and> ?b 2 = Inl e2 \<and> is_Exception e2 \<and>
       ?b 3 = Inl e3 \<longrightarrow> ?r = \<lparr>outcome = Inl e3, attempts = 3, sleeps = [2, 2]\<rparr>"
    by (simp add: u)
  have a5: "\<forall>e1. ?b 1 = Inl e1 \<and> \<not> is_Exception e1 \<longrightarrow>
       ?r = \<lparr>outcome = Inl e1, attempts = 1, sleeps = []\<rparr>"
    by (simp add: u)
  have a6: "\<forall>e1 e2. ?b 1 = Inl e1 \<and> is_Exception e1 \<and> ?b 2 = Inl e2 \<and> \<not> is_Exception e2 \<longrightarrow>
       ?r = \<lparr>outcome = Inl e2, attempts = 2, sleeps = [2]\<rparr>"
    by (simp add: u)
  have 3: "1 \<le> attempts ?r" by (simp add: u split: sum.splits)
  have 4: "attempts ?r \<le> 3" by (simp add: u split: sum.splits)
  have 5: "outcome ?r = ?b (attempts ?r)" by (simp add: u split: sum.splits)
  have 6: "length (sleeps ?r) + 1 = attempts ?r" by (simp add: u split: sum.splits)
  have 7: "\<forall>w \<in> set (sleeps ?r). 2 \<le> w \<and> w \<le> 10" by (simp add: u split: sum.splits)
  have 8: "sleeps ?r \<noteq> [] \<longrightarrow> hd (sleeps ?r) = 2" by (simp add: u split: sum.splits)
  have 9: "(\<forall>k \<in> {1, 2, 3}. chain' k msg = chain k msg) \<longrightarrow>
         extract_expense p l kw chain' msg = extract_expense p l kw chain msg"
  proof
    assume a: "\<forall>k \<in> {1, 2, 3}. chain' k msg = chain k msg"
    have "extract_expense_body p l kw chain' k msg = extract_expense_body p l kw chain k msg"
      if "k \<in> {1, 2, 3}" for k
      using a that by (intro body_cong) blast
    then have e: "extract_expense_body p l kw chain' 1 msg = ?b 1"
      "extract_expense_body p l kw chain' 2 msg = ?b 2"
      "extract_expense_body p l kw chain' 3 msg = ?b 3" by simp_all
    show "extract_expense p l kw chain' msg = ?r"
      unfolding extract_expense_unfold e ..
  qed
  have 10: "\<forall>n. wait_exponential 1 2 10 n
          = (if n \<le> 2 then 2 else if n = 3 then 4 else if n = 4 then 8 else 10)"
    using wait_policy by blast
  from a1 a2 a3 a4 a5 a6 3 4 5 6 7 8 9 10 show ?thesis by (intro conjI)
qed

theorem extract_expense_retry_bound_witness:
  \<open>extract_expense_body (spec_strict_parse sample_json_loads Inr) sample_json_loads Inr
       sample_chain 1 ''hi'' = Inl (RuntimeFailure ''timeout'') \<and>
    is_Exception (RuntimeFailure ''timeout'') \<and>
    extract_expense_body (spec_strict_parse sample_json_loads Inr) sample_json_loads Inr
       sample_chain 2 ''hi'' = Inl (RuntimeFailure ''timeout'') \<and>
    extract_expense_body (spec_strict_parse sample_json_loads Inr) sample_json_loads Inr
       sample_chain 3 ''hi''
       = Inr \<lparr>is_expense = False, description = None, amount = None, category = None\<rparr> \<and>
    extract_expense (spec_strict_parse sample_json_loads Inr) sample_json_loads Inr
       sample_chain ''hi''
       = \<lparr>outcome = Inr \<lparr>is_expense = False, description = None, amount = None,
                          category = None\<rparr>,
          attempts = 3, sleeps = [2, 2]\<rparr> \<and>
    extract_expense_body (spec_strict_parse sample_json_loads Inr) sample_json_loads Inr
       failing_chain 3 ''hi'' = Inl (ValueError ''No JSON found in response'') \<and>
    extract_expense (spec_strict_parse sample_json_loads Inr) sample_json_loads Inr
       failing_chain ''hi''
       = \<lparr>outcome = Inl (ValueError ''No JSON found in response''), attempts = 3,
          sleeps = [2, 2]\<rparr>\<close>
proof -
  let ?P = "spec_strict_parse sample_json_loads Inr"
  let ?b = "\<lambda>ch k. extract_expense_body ?P sample_json_loads Inr ch k ''hi''"
  have x: "is_Exception (RuntimeFailure ''timeout'')" by simp
  have s1: "?b sample_chain 1 = Inl (RuntimeFailure ''timeout'')" by code_simp
  have s2: "?b sample_chain 2 = Inl (RuntimeFailure ''timeout'')" by code_simp
  have s3: "?b sample_chain 3
     = Inr \<lparr>is_expense = False, description = None, amount = None, category = None\<rparr>"
    by code_simp
  have f1: "?b failing_chain 1 = Inl (RuntimeFailure ''timeout'')" by code_simp
  have f2: "?b failing_chain 2 = Inl (RuntimeFailure ''timeout'')" by code_simp
  have f3: "?b failing_chain 3 = Inl (ValueError ''No JSON found in response'')" by code_simp
  note t = extract_expense_retry_bound [of ?P sample_json_loads Inr sample_chain "''hi''"]
  note u = extract_expense_retry_bound [of ?P sample_json_loads Inr failing_chain "''hi''"]
  have a: "extract_expense ?P sample_json_loads Inr sample_chain ''hi''
      = \<lparr>outcome = Inr \<lparr>is_expense = False, description = None, amount = None,
                          category = None\<rparr>, attempts = 3, sleeps = [2, 2]\<rparr>"
    using t [THEN conjunct2, THEN conjunct2, THEN conjunct1, rule_format,
             of "RuntimeFailure ''timeout''" "RuntimeFailure ''timeout''"] s1 s2 s3 x
    by blast
  have b: "extract_expense ?P sample_json_loads Inr failing_chain ''hi''
      = \<lparr>outcome = Inl (ValueError ''No JSON found in response''), attempts = 3,
          sleeps = [2, 2]\<rparr>"
    using u [THEN conjunct2, THEN conjunct2, THEN conjunct2, THEN conjunct1, rule_format,
             of "RuntimeFailure ''timeout''" "RuntimeFailure ''timeout''"] f1 f2 f3 x
    by blast
  from x s1 s2 s3 f3 a b show ?thesis by blast
qed

text \<open>
  Claim C4 as stated, with a backoff that starts at 2 time-units and grows
  exponentially between the attempts (2, then 4), fails on a provider that fails three
  times: the waits slept are 2 and 2, the wait before the third attempt being the one
  before the second.
\<close>

theorem backoff_counterexample:
  \<open>sleeps (extract_expense (spec_strict_parse sample_json_loads Inr) sample_json_loads Inr
             failing_chain ''hi'') = [2, 2]
    \<and> sleeps (extract_expense (spec_strict_parse sample_json_loads Inr) sample_json_loads Inr
             failing_chain ''hi'') \<noteq> [2, 4]
    \<and> wait_exponential 1 2 10 2 = wait_exponential 1 2 10 1\<close>
  by code_simp

lemma init_nonpositive_fails:
  "in_amount kw = Given (Some (- 5)) \<or> in_amount kw = Given (Some 0) \<Longrightarrow>
     \<exists>fs. ExpenseExtraction_init kw = Inl (ValidationError fs) \<and> ''amount'' \<in> set fs"
  by (auto simp: ExpenseExtraction_init_def check_amount_def field_errors_def split: option.splits)

lemma fallback_nonpositive_fails:
  assumes "\<forall>data kw. json_loads (py_slice text (py_find text CHR ''{'') (py_rfind text CHR ''}'' + 1))
               = Inr data \<and> kwargs data = Inr kw \<longrightarrow>
             in_amount kw = Given (Some (- 5)) \<or> in_amount kw = Given (Some 0)"
  shows "isl (extract_and_parse_json json_loads kwargs text)"
proof (cases "py_find text CHR ''{'' = - 1 \<or> py_rfind text CHR ''}'' + 1 = 0")
  case True
  then show ?thesis by (auto simp: extract_and_parse_json_def Let_def)
next
  case False
  let ?s = "py_slice text (py_find text CHR ''{'') (py_rfind text CHR ''}'' + 1)"
  show ?thesis
  proof (cases "json_loads ?s")
    case (Inl e)
    with False show ?thesis by (simp add: extract_and_parse_json_def Let_def)
  next
    case (Inr data)
    note d = Inr
    show ?thesis
    proof (cases "kwargs data")
      case (Inl e)
      with False d show ?thesis by (simp add: extract_and_parse_json_def Let_def)
    next
      case (Inr kw)
      with assms d have "in_amount kw = Given (Some (- 5)) \<or> in_amount kw = Given (Some 0)"
        by blast
      from init_nonpositive_fails [OF this] have "isl (ExpenseExtraction_init kw)" by auto
      with False d Inr show ?thesis by (simp add: extract_and_parse_json_def Let_def)
    qed
  qed
qed

lemma strict_nonpositive_fails:
  assumes "\<forall>data kw. json_loads text = Inr data \<and> kwargs data = Inr kw \<longrightarrow>
             in_amount kw = Given (Some (- 5)) \<or> in_amount kw = Given (Some 0)"
  shows "isl (spec_strict_parse json_loads kwargs text)"
proof (cases "json_loads text")
  case (Inl e)
  then show ?thesis by (simp add: spec_strict_parse_def)
next
  case (Inr data)
  note d = Inr
  show ?thesis
  proof (cases "kwargs data")
    case (Inl e)
    with d show ?thesis by (simp add: spec_strict_parse_def)
  next
    case (Inr kw)
    with assms d have "in_amount kw = Given (Some (- 5)) \<or> in_amount kw = Given (Some 0)"
      by blast
    from init_nonpositive_fails [OF this] have "isl (ExpenseExtraction_init kw)" by auto
    with d Inr show ?thesis by (simp add: spec_strict_parse_def)
  qed
qed

text \<open>
  Claim C7. Whatever the other three fields are, constructing an ExpenseExtraction with
  the amount -5 or the amount 0 raises a ValidationError that names the amount; no
  object is built, so the amount is neither floored nor clamped. A completion that
  carries such an amount is a failed attempt: when the strict parser refuses it and the
  fallback decodes an amount of -5 or 0, the attempt raises, and so it does when the
  strict parser is the strict parse of the specification.
\<close>

theorem nonpositive_amount_rejected:
  "(\<exists>fs. ExpenseExtraction_init (kw\<lparr>in_amount := Given (Some (- 5))\<rparr>) = Inl (ValidationError fs)
         \<and> ''amount'' \<in> set fs)
   \<and> (\<exists>fs. ExpenseExtraction_init (kw\<lparr>in_amount := Given (Some 0)\<rparr>) = Inl (ValidationError fs)
         \<and> ''amount'' \<in> set fs)
   \<and> (\<forall>text e. chain k msg = Inr text \<and> parser_parse text = Inl e \<and>
         (\<forall>data kw'.
             json_loads (py_slice text (py_find text CHR ''{'') (py_rfind text CHR ''}'' + 1))
               = Inr data \<and> kwargs data = Inr kw' \<longrightarrow>
             in_amount kw' = Given (Some (- 5)) \<or> in_amount kw' = Given (Some 0)) \<longrightarrow>
         isl (extract_expense_body parser_parse json_loads kwargs chain k msg))
   \<and> (\<forall>text. chain k msg = Inr text \<and>
         (\<forall>s data kw'. json_loads s = Inr data \<and> kwargs data = Inr kw' \<longrightarrow>
             in_amount kw' = Given (Some (- 5)) \<or> in_amount kw' = Given (Some 0)) \<longrightarrow>
         isl (extract_expense_body (spec_strict_parse json_loads kwargs) json_loads kwargs
                chain k msg))"
proof -
  have 1: "\<exists>fs. ExpenseExtraction_init (kw\<lparr>in_amount := Given (Some (- 5))\<rparr>)
                  = Inl (ValidationError fs) \<and> ''amount'' \<in> set fs"
    by (rule init_nonpositive_fails) simp
  have 2: "\<exists>fs. ExpenseExtraction_init (kw\<lparr>in_amount := Given (Some 0)\<rparr>)
                  = Inl (ValidationError fs) \<and> ''amount'' \<in> set fs"
    by (rule init_nonpositive_fails) simp
  have 3: "\<forall>text e. chain k msg = Inr text \<and> parser_parse text = Inl e \<and>
         (\<forall>data kw'.
             json_loads (py_slice text (py_find text CHR ''{'') (py_rfind text CHR ''}'' + 1))
               = Inr data \<and> kwargs data = Inr kw' \<longrightarrow>
             in_amount kw' = Given (Some (- 5)) \<or> in_amount kw' = Given (Some 0)) \<longrightarrow>
         isl (extract_expense_body parser_parse json_loads kwargs chain k msg)"
  proof (intro allI impI, elim conjE)
    fix t e
    assume c: "chain k msg = Inr t" and p: "parser_parse t = Inl e"
      and h: "\<forall>data kw'.
             json_loads (py_slice t (py_find t CHR ''{'') (py_rfind t CHR ''}'' + 1))
               = Inr data \<and> kwargs data = Inr kw' \<longrightarrow>
             in_amount kw' = Given (Some (- 5)) \<or> in_amount kw' = Given (Some 0)"
    have "isl (extract_and_parse_json json_loads kwargs t)"
      using fallback_nonpositive_fails [of json_loads t kwargs] h by blast
    with c p show "isl (extract_expense_body parser_parse json_loads kwargs chain k msg)"
      by (simp add: extract_expense_body_def)
  qed
  have 4: "\<forall>text. chain k msg = Inr text \<and>
         (\<forall>s data kw'. json_loads s = Inr data \<and> kwargs data = Inr kw' \<longrightarrow>
             in_amount kw' = Given (Some (- 5)) \<or> in_amount kw' = Given (Some 0)) \<longrightarrow>
         isl (extract_expense_body (spec_strict_parse json_loads kwargs) json_loads kwargs
                chain k msg)"
  proof (intro allI impI, elim conjE)
    fix t
    assume c: "chain k msg = Inr t"
      and h: "\<forall>s data kw'. json_loads s = Inr data \<and> kwargs data = Inr kw' \<longrightarrow>
             in_amount kw' = Given (Some (- 5)) \<or> in_amount kw' = Given (Some 0)"
    have s: "isl (spec_strict_parse json_loads kwargs t)"
      using strict_nonpositive_fails [of json_loads t kwargs] h by blast
    have f: "isl (extract_and_parse_json json_loads kwargs t)"
      using fallback_nonpositive_fails [of json_loads t kwargs] h by blast
    from s obtain e where e: "spec_strict_parse json_loads kwargs t = Inl e"
      by (cases "spec_strict_parse json_loads kwargs t") auto
    from c e f show "isl (extract_expense_body (spec_strict_parse json_loads kwargs) json_loads
                            kwargs chain k msg)"
      by (simp add: extract_expense_body_def)
  qed
  from 1 2 3 4 show ?thesis by (intro conjI)
qed

theorem nonpositive_amount_rejected_witness:
  \<open>negative_chain 1 ''Pizza -5''
      = Inr ''{"is_expense":true,"description":"Pizza","amount":-5,"category":"Food"}'' \<and>
    spec_strict_parse sample_json_loads Inr
        ''{"is_expense":true,"description":"Pizza","amount":-5,"category":"Food"}''
      = Inl (ValidationError [''amount'']) \<and>
    isl (extract_expense_body (spec_strict_parse sample_json_loads Inr) sample_json_loads Inr
           negative_chain 1 ''Pizza -5'') \<and>
    extract_expense (spec_strict_parse sample_json_loads Inr) sample_json_loads Inr
        negative_chain ''Pizza -5''
      = \<lparr>outcome = Inl (ValidationError [''amount'']), attempts = 3, sleeps = [2, 2]\<rparr>\<close>
proof -
  let ?T = \<open>''{"is_expense":true,"description":"Pizza","amount":-5,"category":"Food"}''\<close>
  let ?K = "\<lparr>in_is_expense = Given True, in_description = Given (Some ''Pizza''),
             in_amount = Given (Some (- 5)), in_category = Given (Some ''Food'')\<rparr>"
  let ?P = "spec_strict_parse sample_json_loads Inr"
  have c: "negative_chain 1 ''Pizza -5'' = Inr ?T" by (simp add: negative_chain_def)
  have p: "?P ?T = Inl (ValidationError [''amount''])" by code_simp
  have sl: "py_slice ?T (py_find ?T CHR ''{'') (py_rfind ?T CHR ''}'' + 1) = ?T" by code_simp
  have ld: "sample_json_loads ?T = Inr ?K" by code_simp
  have h: "\<forall>data kw'.
      sample_json_loads (py_slice ?T (py_find ?T CHR ''{'') (py_rfind ?T CHR ''}'' + 1)) = Inr data
        \<and> Inr data = (Inr kw' :: exn + ExtractionInput) \<longrightarrow>
      in_amount kw' = Given (Some (- 5)) \<or> in_amount kw' = Given (Some 0)"
    unfolding sl ld by auto
  note t = nonpositive_amount_rejected
     [of _ negative_chain 1 "''Pizza -5''" ?P sample_json_loads Inr,
      THEN conjunct2, THEN conjunct2, THEN conjunct1, rule_format,
      of ?T "ValidationError [''amount'']"]
  have a: "isl (extract_expense_body ?P sample_json_loads Inr negative_chain 1 ''Pizza -5'')"
    by (rule t) (use c p h in blast)
  have b: "extract_expense ?P sample_json_loads Inr negative_chain ''Pizza -5''
      = \<lparr>outcome = Inl (ValidationError [''amount'']), attempts = 3, sleeps = [2, 2]\<rparr>"
    by code_simp
  from c p a b show ?thesis by blast
qed

section \<open>Properties of the decision logic\<close>

lemma round_half_even_of_int: "round_half_even (of_int n) = n"
  by (simp add: round_half_even_def Let_def)

lemma py_round_cents: "py_round (of_int n / 100) 2 = of_int n / 100"
proof -
  have "of_int n / 100 * 10 ^ 2 = (of_int n :: rat)" by simp
  then show ?thesis unfolding py_round_def by (simp only: round_half_even_of_int) simp
qed

lemma py_round_idem: "py_round (py_round x 2) 2 = py_round x 2"
proof -
  have e: "py_round x 2 = of_int (round_half_even (x * 10 ^ 2)) / 100" by (simp add: py_round_def)
  show ?thesis unfolding e by (rule py_round_cents)
qed

lemma py_round_is_cents: "of_int \<lfloor>py_round x 2 * 100\<rfloor> = py_round x 2 * 100"
  by (simp add: py_round_def)

lemma init_amount:
  "ExpenseExtraction_init kw = Inr e \<Longrightarrow> amount e = Some a \<Longrightarrow>
     \<exists>x. in_amount kw = Given (Some x) \<and> 0 < x \<and> a = py_round x 2"
  by (auto simp: ExpenseExtraction_init_def check_amount_def validate_amount_def
      split: option.splits field_input.splits if_splits)

lemma py_len_pos: "1 \<le> py_len d \<Longrightarrow> d \<noteq> []"
  by (auto simp: py_len_def)

lemma category_value_nonempty: "category_value c \<noteq> []"
  by (cases c) simp_all

lemma category_roundtrip: "category_of_value (category_value c) = Some c"
  by (cases c) (simp_all add: category_of_value_def all_categories_def)

lemma create_expense_ok:
  "fault db = NoFault \<Longrightarrow>
   create_expense x db =
     (Inr \<lparr>row_id = Some (next_id db), row_user_id = create_user_id x,
           row_description = create_description x, row_amount = create_amount x,
           row_category = category_value (create_category x),
           row_added_at = Some (clock db)\<rparr>,
      db\<lparr>rows := rows db @ [\<lparr>row_id = Some (next_id db), row_user_id = create_user_id x,
           row_description = create_description x, row_amount = create_amount x,
           row_category = category_value (create_category x),
           row_added_at = Some (clock db)\<rparr>], next_id := next_id db + 1\<rparr>)"
  by (simp add: create_expense_def db_add_def db_commit_def db_refresh_def Let_def)

text \<open>
  Claim C3. When the extraction reports that the message is no expense, the outcome is
  a failure with the message "This doesn't look like an expense ..." and without an
  expense id, and the session is left as it was: no expense is persisted.
\<close>

theorem not_expense_outcome:
  "extract msg = Inr e \<Longrightarrow> \<not> is_expense e \<Longrightarrow>
   process_message extract uid msg db
     = (Inr \<lparr>success = False, message = msg_not_expense, expense_id = None\<rparr>, db)
   \<and> contains ''doesn't look like an expense'' msg_not_expense"
proof -
  assume a: "extract msg = Inr e" "\<not> is_expense e"
  have t: "contains ''doesn't look like an expense'' msg_not_expense" by code_simp
  from a have "process_message extract uid msg db
     = (Inr \<lparr>success = False, message = msg_not_expense, expense_id = None\<rparr>, db)"
    by (simp add: process_message_def process_message_try_def)
  with t show ?thesis by (rule conjI [rotated])
qed

theorem not_expense_outcome_witness:
  "process_message (\<lambda>m. Inr \<lparr>is_expense = False, description = None, amount = None, category = None\<rparr>)
      1 ''hi'' empty_db
     = (Inr \<lparr>success = False, message = msg_not_expense, expense_id = None\<rparr>, empty_db)
   \<and> rows empty_db = []"
proof -
  let ?e = "\<lparr>is_expense = False, description = None, amount = None, category = None\<rparr>"
  have 1: "(\<lambda>m. Inr ?e) ''hi'' = (Inr ?e :: exn + ExpenseExtraction)" by simp
  have 2: "\<not> is_expense ?e" by simp
  have 3: "rows empty_db = []" by (simp add: empty_db_def)
  from not_expense_outcome [of "\<lambda>m. Inr ?e" "''hi''" ?e 1 empty_db, OF 1 2, THEN conjunct1] 3
  show ?thesis by simp
qed

lemma py_len_replicate_a: "py_len (replicate n CHR ''a'') = n"
  by (simp add: py_len_def)

text \<open>
  Claim C2, as the code has it. Let the extraction be a constructed ExpenseExtraction
  with is_expense true, a description of 1 to 500 characters, an amount above zero and
  below \<open>10\<^sup>1\<^sup>3\<close> and a category, let the user id be positive and let the store perform
  the insert. Then exactly one row is appended to the table: it carries the user id,
  the description, the amount of the extraction (the amount given to the constructor
  rounded to two places, which a second rounding leaves unchanged) and the value of the
  category; the outcome is a success with the confirmation message of that category, as
  the source file spells it, and the id of the new row.
\<close>

theorem complete_extraction_persisted:
  assumes "extract msg = Inr e" and "ExpenseExtraction_init kw = Inr e"
    and "is_expense e" and "description e = Some d" and "1 \<le> py_len d" and "py_len d \<le> 500"
    and "amount e = Some a" and "0 < a" and "category e = Some c"
    and "0 < uid" and "fault db = NoFault" and "tracked_amount a"
  shows "process_message extract uid msg db =
     (Inr \<lparr>success = True, message = category_value c @ '' expense added '' @
             [CHR 0xC3, CHR 0xA2, CHR 0xC5, CHR 0x93, CHR 0xE2, CHR 0x80, CHR 0xA6], expense_id = Some (next_id db)\<rparr>,
      db\<lparr>rows := rows db @ [\<lparr>row_id = Some (next_id db), row_user_id = uid,
           row_description = d, row_amount = a, row_category = category_value c,
           row_added_at = Some (clock db)\<rparr>], next_id := next_id db + 1\<rparr>)
     \<and> (\<exists>x. in_amount kw = Given (Some x) \<and> a = py_round x 2)
     \<and> py_round a 2 = a
     \<and> category_of_value (category_value c) = Some c"
proof -
  obtain x where x: "in_amount kw = Given (Some x)" "0 < x" "a = py_round x 2"
    using init_amount [OF assms(2) assms(7)] by blast
  have cents: "of_int \<lfloor>a * 100\<rfloor> = a * 100" unfolding x(3) by (rule py_round_is_cents)
  have idem: "py_round a 2 = a" unfolding x(3) by (rule py_round_idem)
  have dne: "d \<noteq> []" using assms(5) by (rule py_len_pos)
  have ane: "a \<noteq> 0" using assms(8) by simp
  have ec: "ExpenseCreate_init uid (Some d) (Some a) (Some c)
      = Inr \<lparr>create_user_id = uid, create_description = d, create_amount = a, create_category = c\<rparr>"
    using assms(5,6,8,10) cents
    by (simp add: ExpenseCreate_init_def create_errors_def check_user_id_def
        check_create_description_def check_create_amount_def)
  have "process_message extract uid msg db =
     (Inr \<lparr>success = True, message = category_value c @ '' expense added '' @
             [CHR 0xC3, CHR 0xA2, CHR 0xC5, CHR 0x93, CHR 0xE2, CHR 0x80, CHR 0xA6], expense_id = Some (next_id db)\<rparr>,
      db\<lparr>rows := rows db @ [\<lparr>row_id = Some (next_id db), row_user_id = uid,
           row_description = d, row_amount = a, row_category = category_value c,
           row_added_at = Some (clock db)\<rparr>], next_id := next_id db + 1\<rparr>)"
    using assms(1,3,4,7,9) dne ane category_value_nonempty [of c]
    by (simp add: process_message_def process_message_try_def truthy_str_def truthy_float_def
        truthy_category_def Decimal_of_str_def msg_added_def ec create_expense_ok [OF assms(11)])
  with x(1,3) idem category_roundtrip show ?thesis by blast
qed

theorem complete_extraction_persisted_witness:
  "process_message
     (\<lambda>m. Inr \<lparr>is_expense = True, description = Some ''Pizza'', amount = Some 20, category = Some FOOD\<rparr>)
     1 ''Pizza 20 reais'' empty_db
   = (Inr \<lparr>success = True, message = msg_added FOOD, expense_id = Some 1\<rparr>,
      \<lparr>rows = [\<lparr>row_id = Some 1, row_user_id = 1, row_description = ''Pizza'', row_amount = 20,
                row_category = ''Food'', row_added_at = Some 0\<rparr>],
       next_id = 2, clock = 0, fault = NoFault\<rparr>)
   \<and> ExpenseExtraction_init
       \<lparr>in_is_expense = Given True, in_description = Given (Some ''Pizza''),
        in_amount = Given (Some 20), in_category = Given (Some ''Food'')\<rparr>
     = Inr \<lparr>is_expense = True, description = Some ''Pizza'', amount = Some 20, category = Some FOOD\<rparr>
   \<and> py_len ''Pizza'' = 5 \<and> tracked_amount 20"
proof -
  let ?e = "\<lparr>is_expense = True, description = Some ''Pizza'', amount = Some 20, category = Some FOOD\<rparr>"
  let ?kw = "\<lparr>in_is_expense = Given True, in_description = Given (Some ''Pizza''),
        in_amount = Given (Some 20), in_category = Given (Some ''Food'')\<rparr>"
  have 1: "(\<lambda>m. Inr ?e) ''Pizza 20 reais'' = (Inr ?e :: exn + ExpenseExtraction)" by simp
  have 2: "ExpenseExtraction_init ?kw = Inr ?e" by code_simp
  have 3: "is_expense ?e" by simp
  have 4: "description ?e = Some ''Pizza''" by simp
  have l: "py_len ''Pizza'' = 5" by code_simp
  have 5: "1 \<le> py_len ''Pizza''" unfolding l by simp
  have 6: "py_len ''Pizza'' \<le> 500" unfolding l by simp
  have 7: "amount ?e = Some 20" by simp
  have 8: "(0::rat) < 20" by simp
  have 9: "category ?e = Some FOOD" by simp
  have 10: "(0::int) < 1" by simp
  have 11: "fault empty_db = NoFault" by (simp add: empty_db_def)
  have 12: "tracked_amount 20" by (simp add: tracked_amount_def)
  note t = complete_extraction_persisted [of "\<lambda>m. Inr ?e" "''Pizza 20 reais''" ?e ?kw "''Pizza''" 20 FOOD 1 empty_db,
      OF 1 2 3 4 5 6 7 8 9 10 11 12, THEN conjunct1]
  have "process_message (\<lambda>m. Inr ?e) 1 ''Pizza 20 reais'' empty_db
   = (Inr \<lparr>success = True, message = msg_added FOOD, expense_id = Some 1\<rparr>,
      \<lparr>rows = [\<lparr>row_id = Some 1, row_user_id = 1, row_description = ''Pizza'', row_amount = 20,
                row_category = ''Food'', row_added_at = Some 0\<rparr>],
       next_id = 2, clock = 0, fault = NoFault\<rparr>)"
    using t by (simp add: empty_db_def msg_added_def)
  with 2 l 12 show ?thesis by blast
qed

text \<open>
  Claim C2 as stated fails on a description of 501 characters: the extraction is
  constructed with is_expense true, the description, the amount 20 and the category
  Food, the user id is positive and the store works, yet \<^verbatim>\<open>ExpenseCreate\<close> refuses the
  description (\<^verbatim>\<open>max_length=500\<close>), nothing is persisted and the outcome is the generic
  error.
\<close>

theorem long_description_counterexample:
  "ExpenseExtraction_init
       \<lparr>in_is_expense = Given True, in_description = Given (Some (replicate 501 CHR ''a'')),
        in_amount = Given (Some 20), in_category = Given (Some ''Food'')\<rparr>
     = Inr \<lparr>is_expense = True, description = Some (replicate 501 CHR ''a''), amount = Some 20,
            category = Some FOOD\<rparr>
   \<and> process_message
     (\<lambda>m. Inr \<lparr>is_expense = True, description = Some (replicate 501 CHR ''a''), amount = Some 20,
               category = Some FOOD\<rparr>)
     1 ''Pizza 20 reais'' empty_db
   = (Inr \<lparr>success = False, message = msg_error, expense_id = None\<rparr>, empty_db)"
proof -
  have r: "py_round 20 2 = 20" by code_simp
  have c: "category_of_value ''Food'' = Some FOOD" by code_simp
  have 1: "ExpenseExtraction_init
       \<lparr>in_is_expense = Given True, in_description = Given (Some (replicate 501 CHR ''a'')),
        in_amount = Given (Some 20), in_category = Given (Some ''Food'')\<rparr>
     = Inr \<lparr>is_expense = True, description = Some (replicate 501 CHR ''a''), amount = Some 20,
            category = Some FOOD\<rparr>"
    by (simp add: ExpenseExtraction_init_def check_is_expense_def check_description_def
        check_amount_def check_category_def validate_amount_def r c)
  have ne: "replicate 501 CHR ''a'' \<noteq> []" by simp
  have 2: "process_message
     (\<lambda>m. Inr \<lparr>is_expense = True, description = Some (replicate 501 CHR ''a''), amount = Some 20,
               category = Some FOOD\<rparr>)
     1 ''Pizza 20 reais'' empty_db
   = (Inr \<lparr>success = False, message = msg_error, expense_id = None\<rparr>, empty_db)"
    using ne
    by (simp add: process_message_def process_message_try_def truthy_str_def truthy_float_def
        truthy_category_def Decimal_of_str_def ExpenseCreate_init_def create_errors_def
        check_create_description_def py_len_replicate_a)
  from 1 2 show ?thesis by (rule conjI)
qed

text \<open>
  Claim C6 on the amount 1/256 = 0.00390625: it is above zero and passes \<^verbatim>\<open>gt=0\<close>, the
  field validator then rounds it to 0.0, and the ExpenseExtraction is constructed with
  an amount that is present and not above zero. The decision logic takes that amount
  for a missing one.
\<close>

theorem tiny_amount_constructs_zero:
  "ExpenseExtraction_init
       \<lparr>in_is_expense = Given True, in_description = Given (Some ''Gum''),
        in_amount = Given (Some (1 / 256)), in_category = Given (Some ''Food'')\<rparr>
     = Inr \<lparr>is_expense = True, description = Some ''Gum'', amount = Some 0, category = Some FOOD\<rparr>
   \<and> process_message
        (\<lambda>m. ExpenseExtraction_init
                \<lparr>in_is_expense = Given True, in_description = Given (Some ''Gum''),
                 in_amount = Given (Some (1 / 256)), in_category = Given (Some ''Food'')\<rparr>)
        1 ''Gum 0.00390625'' empty_db
     = (Inr \<lparr>success = False, message = msg_incomplete, expense_id = None\<rparr>, empty_db)"
  by code_simp

lemma create_expense_cases:
  "(\<exists>x. create_expense ec db = (Inl x, db) \<and> (fault db = AddFails x \<or> fault db = CommitFails x))
   \<or> (\<exists>x row. create_expense ec db
                  = (Inl x, db\<lparr>rows := rows db @ [row], next_id := next_id db + 1\<rparr>)
         \<and> fault db = RefreshFails x \<and> row_id row = Some (next_id db))
   \<or> (\<exists>row db'. create_expense ec db = (Inr row, db') \<and> fault db = NoFault
         \<and> row_id row = Some (next_id db))"
proof (cases "fault db")
  case (RefreshFails x)
  let ?row = "\<lparr>row_id = Some (next_id db), row_user_id = create_user_id ec,
               row_description = create_description ec, row_amount = create_amount ec,
               row_category = category_value (create_category ec),
               row_added_at = Some (clock db)\<rparr>"
  have "create_expense ec db
          = (Inl x, db\<lparr>rows := rows db @ [?row], next_id := next_id db + 1\<rparr>)"
    using RefreshFails
    by (simp add: create_expense_def db_add_def db_commit_def db_refresh_def Let_def)
  moreover have "row_id ?row = Some (next_id db)" by simp
  ultimately show ?thesis using RefreshFails by blast
qed (simp_all add: create_expense_def db_add_def db_commit_def db_refresh_def Let_def)

lemma msgs_nonempty: "msg_error \<noteq> []" "msg_not_expense \<noteq> []" "msg_incomplete \<noteq> []"
  "msg_added c \<noteq> []"
  by (simp_all add: msg_error_def msg_not_expense_def msg_incomplete_def msg_added_def)

lemma ExpenseCreate_init_error: "ExpenseCreate_init u d a c = Inl e \<Longrightarrow> is_Exception e"
  by (auto simp: ExpenseCreate_init_def split: option.splits if_splits)

lemma process_message_caught:
  assumes ex: "\<forall>e. extract msg = Inl e \<longrightarrow> is_Exception e"
    and fx: "\<forall>x. fault db = AddFails x \<or> fault db = CommitFails x \<or> fault db = RefreshFails x
               \<longrightarrow> is_Exception x"
  shows "\<exists>out db'. process_message extract uid msg db = (Inr out, db')
     \<and> message out \<noteq> []
     \<and> (success out \<longrightarrow> expense_id out \<noteq> None \<and> fault db = NoFault \<and> \<not> isl (extract msg))
     \<and> (\<not> success out \<longrightarrow> expense_id out = None \<and>
           (message out = msg_error \<or> message out = msg_not_expense \<or> message out = msg_incomplete))
     \<and> (isl (extract msg) \<longrightarrow>
           out = \<lparr>success = False, message = msg_error, expense_id = None\<rparr> \<and> db' = db)
     \<and> (fault db \<noteq> NoFault \<longrightarrow> \<not> success out \<and> expense_id out = None)
     \<and> (\<forall>x. fault db = AddFails x \<or> fault db = CommitFails x \<longrightarrow> db' = db)
     \<and> (\<forall>x. fault db = RefreshFails x \<longrightarrow>
           db' = db \<or>
           (out = \<lparr>success = False, message = msg_error, expense_id = None\<rparr> \<and>
            (\<exists>row. row_id row = Some (next_id db) \<and>
                   db' = db\<lparr>rows := rows db @ [row], next_id := next_id db + 1\<rparr>)))"
proof (cases "extract msg")
  case (Inl e)
  with ex have "is_Exception e" by blast
  with Inl show ?thesis
    by (simp add: process_message_def process_message_try_def msgs_nonempty)
next
  case (Inr ex)
  show ?thesis
  proof (cases "is_expense ex")
    case False
    with Inr show ?thesis
      by (simp add: process_message_def process_message_try_def msgs_nonempty)
  next
    case True
    note ie = True
    show ?thesis
    proof (cases "list_all id [truthy_str (description ex), truthy_float (amount ex),
                                  truthy_category (category ex)]")
      case False
      with Inr ie show ?thesis
        by (simp add: process_message_def process_message_try_def msgs_nonempty)
    next
      case True
      note tr = True
      then obtain c where c: "category ex = Some c"
        by (auto simp: truthy_category_def split: option.splits)
      show ?thesis
      proof (cases "ExpenseCreate_init uid (description ex)
                    (map_option Decimal_of_str (amount ex)) (category ex)")
        case (Inl e)
        from ExpenseCreate_init_error [OF Inl] have "is_Exception e" .
        with Inl Inr ie tr show ?thesis
          by (simp add: process_message_def process_message_try_def msgs_nonempty)
      next
        case (Inr ec)
        note eci = Inr
        consider (nowrite) x where "create_expense ec db = (Inl x, db)"
              "fault db = AddFails x \<or> fault db = CommitFails x"
          | (norefresh) x row where
              "create_expense ec db
                 = (Inl x, db\<lparr>rows := rows db @ [row], next_id := next_id db + 1\<rparr>)"
              "fault db = RefreshFails x" "row_id row = Some (next_id db)"
          | (stored) row db' where "create_expense ec db = (Inr row, db')" "fault db = NoFault"
              "row_id row = Some (next_id db)"
          using create_expense_cases [of ec db] by blast
        then show ?thesis
        proof cases
          case nowrite
          with fx have "is_Exception x" by blast
          with nowrite \<open>extract msg = Inr ex\<close> ie tr eci show ?thesis
            by (auto simp: process_message_def process_message_try_def msgs_nonempty)
        next
          case norefresh
          with fx have "is_Exception x" by blast
          with norefresh \<open>extract msg = Inr ex\<close> ie tr eci show ?thesis
            by (auto simp: process_message_def process_message_try_def msgs_nonempty)
        next
          case stored
          with \<open>extract msg = Inr ex\<close> ie tr eci c show ?thesis
            by (simp add: process_message_def process_message_try_def msgs_nonempty)
        qed
      qed
    qed
  qed
qed

lemma process_message_uncaught:
  "extract msg = Inl e \<Longrightarrow> \<not> is_Exception e \<Longrightarrow>
     process_message extract uid msg db = (Inl e, db)"
  by (simp add: process_message_def process_message_try_def)

text \<open>
  Claim C1, as the code has it. When what the extraction engine and the store raise
  derives from Exception, \<^verbatim>\<open>process_message\<close> returns a response and raises nothing.
  The response carries a message; a success carries an expense id and is only returned
  when the extraction returned and the store did not fail; a failure carries no expense
  id and one of the three explanatory messages. When the engine raises (its retries
  exhausted) the response is the generic error and the session is unchanged; when the
  store fails the response is no success and has no expense id; a failed add or commit
  leaves the session unchanged, and a failed refresh is answered with the generic error
  after the row was committed. An exception of the engine that does not derive from
  Exception reaches the caller.
\<close>

theorem process_message_never_raises:
  "((\<forall>e. extract msg = Inl e \<longrightarrow> is_Exception e) \<and>
    (\<forall>x. fault db = AddFails x \<or> fault db = CommitFails x \<or> fault db = RefreshFails x
               \<longrightarrow> is_Exception x) \<longrightarrow>
    (\<exists>out db'. process_message extract uid msg db = (Inr out, db')
     \<and> message out \<noteq> []
     \<and> (success out \<longrightarrow> expense_id out \<noteq> None \<and> fault db = NoFault \<and> \<not> isl (extract msg))
     \<and> (\<not> success out \<longrightarrow> expense_id out = None \<and>
           (message out = msg_error \<or> message out = msg_not_expense \<or> message out = msg_incomplete))
     \<and> (isl (extract msg) \<longrightarrow>
           out = \<lparr>success = False, message = msg_error, expense_id = None\<rparr> \<and> db' = db)
     \<and> (fault db \<noteq> NoFault \<longrightarrow> \<not> success out \<and> expense_id out = None)
     \<and> (\<forall>x. fault db = AddFails x \<or> fault db = CommitFails x \<longrightarrow> db' = db)
     \<and> (\<forall>x. fault db = RefreshFails x \<longrightarrow>
           db' = db \<or>
           (out = \<lparr>success = False, message = msg_error, expense_id = None\<rparr> \<and>
            (\<exists>row. row_id row = Some (next_id db) \<and>
                   db' = db\<lparr>rows := rows db @ [row], next_id := next_id db + 1\<rparr>)))))
   \<and> (\<forall>e. extract msg = Inl e \<and> \<not> is_Exception e \<longrightarrow>
         process_message extract uid msg db = (Inl e, db))"
proof (intro conjI impI allI)
  assume a: "(\<forall>e. extract msg = Inl e \<longrightarrow> is_Exception e) \<and>
    (\<forall>x. fault db = AddFails x \<or> fault db = CommitFails x \<or> fault db = RefreshFails x
               \<longrightarrow> is_Exception x)"
  then have 1: "\<forall>e. extract msg = Inl e \<longrightarrow> is_Exception e"
    and 2: "\<forall>x. fault db = AddFails x \<or> fault db = CommitFails x \<or> fault db = RefreshFails x
               \<longrightarrow> is_Exception x"
    by blast+
  show "\<exists>out db'. process_message extract uid msg db = (Inr out, db')
     \<and> message out \<noteq> []
     \<and> (success out \<longrightarrow> expense_id out \<noteq> None \<and> fault db = NoFault \<and> \<not> isl (extract msg))
     \<and> (\<not> success out \<longrightarrow> expense_id out = None \<and>
           (message out = msg_error \<or> message out = msg_not_expense \<or> message out = msg_incomplete))
     \<and> (isl (extract msg) \<longrightarrow>
           out = \<lparr>success = False, message = msg_error, expense_id = None\<rparr> \<and> db' = db)
     \<and> (fault db \<noteq> NoFault \<longrightarrow> \<not> success out \<and> expense_id out = None)
     \<and> (\<forall>x. fault db = AddFails x \<or> fault db = CommitFails x \<longrightarrow> db' = db)
     \<and> (\<forall>x. fault db = RefreshFails x \<longrightarrow>
           db' = db \<or>
           (out = \<lparr>success = False, message = msg_error, expense_id = None\<rparr> \<and>
            (\<exists>row. row_id row = Some (next_id db) \<and>
                   db' = db\<lparr>rows := rows db @ [row], next_id := next_id db + 1\<rparr>)))"
    by (rule process_message_caught [of "extract" "msg" "db" "uid", OF 1 2])
next
  fix e
  assume "extract msg = Inl e \<and> \<not> is_Exception e"
  then show "process_message extract uid msg db = (Inl e, db)"
    using process_message_uncaught [of "extract" "msg" "e" "uid" "db"] by blast
qed

theorem process_message_never_raises_witness:
  "process_message (\<lambda>m. Inl (RuntimeFailure ''LLM API error'')) 1 ''Pizza 20'' empty_db
     = (Inr \<lparr>success = False, message = msg_error, expense_id = None\<rparr>, empty_db)
   \<and> process_message
       (\<lambda>m. Inr \<lparr>is_expense = True, description = Some ''Pizza'', amount = Some 20,
                 category = Some FOOD\<rparr>)
       1 ''Pizza 20 reais'' (empty_db\<lparr>fault := CommitFails (RuntimeFailure ''store unavailable'')\<rparr>)
     = (Inr \<lparr>success = False, message = msg_error, expense_id = None\<rparr>,
        empty_db\<lparr>fault := CommitFails (RuntimeFailure ''store unavailable'')\<rparr>)
   \<and> process_message
       (\<lambda>m. Inr \<lparr>is_expense = True, description = Some ''Pizza'', amount = Some 20,
                 category = Some FOOD\<rparr>)
       1 ''Pizza 20 reais'' (empty_db\<lparr>fault := RefreshFails (RuntimeFailure ''connection lost'')\<rparr>)
     = (Inr \<lparr>success = False, message = msg_error, expense_id = None\<rparr>,
        \<lparr>rows = [\<lparr>row_id = Some 1, row_user_id = 1, row_description = ''Pizza'',
                  row_amount = 20, row_category = ''Food'', row_added_at = Some 0\<rparr>],
         next_id = 2, clock = 0, fault = RefreshFails (RuntimeFailure ''connection lost'')\<rparr>)
   \<and> process_message (\<lambda>m. Inl KeyboardInterrupt) 1 ''Pizza 20'' empty_db
     = (Inl KeyboardInterrupt, empty_db)"
proof -
  let ?x = "\<lambda>m. Inl (RuntimeFailure ''LLM API error'') :: exn + ExpenseExtraction"
  have h1: "\<forall>e. ?x ''Pizza 20'' = Inl e \<longrightarrow> is_Exception e" by simp
  have h2: "\<forall>x. fault empty_db = AddFails x \<or> fault empty_db = CommitFails x \<or>
               fault empty_db = RefreshFails x \<longrightarrow> is_Exception x"
    by (simp add: empty_db_def)
  have i: "isl (?x ''Pizza 20'')" by simp
  note t = process_message_never_raises [of ?x "''Pizza 20''" empty_db 1]
  obtain out db' where
    o: "process_message ?x 1 ''Pizza 20'' empty_db = (Inr out, db')"
    and f: "isl (?x ''Pizza 20'')
          \<longrightarrow> out = \<lparr>success = False, message = msg_error, expense_id = None\<rparr> \<and> db' = empty_db"
    using t [THEN conjunct1, THEN mp, OF conjI, OF h1 h2] by blast
  from f i have "out = \<lparr>success = False, message = msg_error, expense_id = None\<rparr> \<and> db' = empty_db"
    by (rule mp)
  with o have a: "process_message ?x 1 ''Pizza 20'' empty_db
     = (Inr \<lparr>success = False, message = msg_error, expense_id = None\<rparr>, empty_db)"
    by simp
  have b: "process_message
       (\<lambda>m. Inr \<lparr>is_expense = True, description = Some ''Pizza'', amount = Some 20,
                 category = Some FOOD\<rparr>)
       1 ''Pizza 20 reais'' (empty_db\<lparr>fault := CommitFails (RuntimeFailure ''store unavailable'')\<rparr>)
     = (Inr \<lparr>success = False, message = msg_error, expense_id = None\<rparr>,
        empty_db\<lparr>fault := CommitFails (RuntimeFailure ''store unavailable'')\<rparr>)"
    by code_simp
  have c: "process_message
       (\<lambda>m. Inr \<lparr>is_expense = True, description = Some ''Pizza'', amount = Some 20,
                 category = Some FOOD\<rparr>)
       1 ''Pizza 20 reais'' (empty_db\<lparr>fault := RefreshFails (RuntimeFailure ''connection lost'')\<rparr>)
     = (Inr \<lparr>success = False, message = msg_error, expense_id = None\<rparr>,
        \<lparr>rows = [\<lparr>row_id = Some 1, row_user_id = 1, row_description = ''Pizza'',
                  row_amount = 20, row_category = ''Food'', row_added_at = Some 0\<rparr>],
         next_id = 2, clock = 0, fault = RefreshFails (RuntimeFailure ''connection lost'')\<rparr>)"
    by code_simp
  have k: "(\<lambda>m. Inl KeyboardInterrupt :: exn + ExpenseExtraction) ''Pizza 20'' = Inl KeyboardInterrupt
             \<and> \<not> is_Exception KeyboardInterrupt" by simp
  have d: "process_message (\<lambda>m. Inl KeyboardInterrupt) 1 ''Pizza 20'' empty_db
     = (Inl KeyboardInterrupt, empty_db)"
    using process_message_never_raises
            [of "\<lambda>m. Inl KeyboardInterrupt" "''Pizza 20''" empty_db 1,
             THEN conjunct2, rule_format, of KeyboardInterrupt] k
    by blast
  from a b c d show ?thesis by (intro conjI)
qed

text \<open>
  Claim C1 as stated fails when the task is cancelled at the awaited extraction: the
  CancelledError is no Exception, the handler does not catch it, and \<^verbatim>\<open>process_message\<close>
  raises it to its caller.
\<close>

theorem cancellation_counterexample:
  "process_message (\<lambda>m. Inl CancelledError) 1 ''Pizza 20 reais'' empty_db
     = (Inl CancelledError, empty_db)
   \<and> \<not> is_Exception CancelledError"
  by code_simp

end
